theory Spec2Isabelle
  imports Main "HOL-Library.Word"
begin

unbundle bit_operations_syntax

section \<open>Bytes and the content digest\<close>

text \<open>
  The module under study is \<^verbatim>\<open>cowrie/insults/insults.py\<close>: the class
  \<^verbatim>\<open>LoggingServerProtocol\<close>, which wraps Twisted's terminal protocol, records the
  session into a TTY log and, at teardown, moves captured files into the download directory
  under the SHA-256 of their content.

  Data read from the peer or from a file is a list of octets.
\<close>

type_synonym byte = "8 word"
type_synonym bytes = "byte list"

subsection \<open>The digest\<close>

text \<open>
  \<^verbatim>\<open>hashlib.sha256(data).hexdigest()\<close> belongs to Python's standard library and
  not to this module. The model takes it as a parameter \<open>sha256\<close> of the teardown:
  a function from the octets of a file to the name under which the file is stored. What
  is proved below holds for every such function.

  Where a statement needs a closed example, the digest is \<open>example_digest\<close>: the letter
  \<open>h\<close> and the octets in lowercase hexadecimal. It stands in for SHA-256 in examples
  only, and no example depends on which function of the content it is.
\<close>

type_synonym digest = "bytes \<Rightarrow> string"

definition hexdigit :: "nat \<Rightarrow> char" where
  "hexdigit n = ''0123456789abcdef'' ! (n mod 16)"

definition hex_byte :: "byte \<Rightarrow> string" where
  "hex_byte b = [hexdigit (unat (drop_bit 4 b)), hexdigit (unat (b AND 0xF))]"

definition example_digest :: digest where
  "example_digest m = CHR ''h'' # concat (map hex_byte m)"

section \<open>The environment of the protocol object\<close>

subsection \<open>Exceptions\<close>

text \<open>
  The exception classes that the module handles or lets through. A subclass of
  \<^verbatim>\<open>ResponseError\<close> counts as \<^verbatim>\<open>ResponseError\<close>; every class that is neither
  an \<^verbatim>\<open>IOError\<close>, a configuration error, a \<^verbatim>\<open>ValueError\<close> nor a
  \<^verbatim>\<open>ResponseError\<close> is \<open>OtherError\<close> with its name.
\<close>

datatype exn = IOError | NoOptionError | ValueError | ResponseError | OtherError string

datatype outcome = Returned | Raised exn

subsection \<open>Strings and paths\<close>

definition lower_char :: "char \<Rightarrow> char" where
  "lower_char c =
     (case map_of (zip ''ABCDEFGHIJKLMNOPQRSTUVWXYZ'' ''abcdefghijklmnopqrstuvwxyz'') c of
        None \<Rightarrow> c
      | Some d \<Rightarrow> d)"

definition lower :: "string \<Rightarrow> string" where
  "lower s = map lower_char s"

text \<open>\<^verbatim>\<open>s.find(sub)\<close>: the lowest index at which \<open>sub\<close> occurs in \<open>s\<close>, or -1.\<close>

fun find_from :: "string \<Rightarrow> string \<Rightarrow> nat \<Rightarrow> int" where
  "find_from sub [] i = (if sub = [] then int i else - 1)"
| "find_from sub (c # cs) i =
     (if take (length sub) (c # cs) = sub then int i else find_from sub cs (Suc i))"

definition find_str :: "string \<Rightarrow> string \<Rightarrow> int" where
  "find_str s sub = find_from sub s 0"

text \<open>\<^verbatim>\<open>s[n:]\<close> for an index that may be negative or beyond the end.\<close>

definition slice_from :: "string \<Rightarrow> int \<Rightarrow> string" where
  "slice_from s n =
     (if 0 \<le> n then drop (nat n) s else drop (nat (int (length s) + n)) s)"

text \<open>\<^verbatim>\<open>os.path.join(a, b)\<close> on POSIX.\<close>

definition path_join :: "string \<Rightarrow> string \<Rightarrow> string" where
  "path_join a b =
     (if b \<noteq> [] \<and> hd b = CHR ''/'' then b
      else if a = [] \<or> last a = CHR ''/'' then a @ b
      else a @ ''/'' @ b)"

subsection \<open>The file system\<close>

text \<open>
  The files the module touches are regular files: a path either names no file or holds some
  octets. \<open>denied\<close> is the set of paths on which \<^verbatim>\<open>open\<close> raises
  \<^verbatim>\<open>IOError\<close> although nothing is wrong with the call (no permission, a missing
  directory). \<^verbatim>\<open>os.remove\<close>, \<^verbatim>\<open>os.rename\<close> and \<^verbatim>\<open>os.path.getsize\<close>
  are only ever called on a path that was just seen to exist, and succeed there.
\<close>

record fsys =
  files :: "string \<rightharpoonup> bytes"
  denied :: "string set"

definition path_exists :: "fsys \<Rightarrow> string \<Rightarrow> bool" where
  "path_exists fs p = (files fs p \<noteq> None)"

definition getsize :: "fsys \<Rightarrow> string \<Rightarrow> nat" where
  "getsize fs p = (case files fs p of None \<Rightarrow> 0 | Some c \<Rightarrow> length c)"

definition open_rb_read :: "fsys \<Rightarrow> string \<Rightarrow> exn + bytes" where
  "open_rb_read fs p =
     (if p \<in> denied fs then Inl IOError
      else case files fs p of None \<Rightarrow> Inl IOError | Some c \<Rightarrow> Inr c)"

definition open_ab_write :: "fsys \<Rightarrow> string \<Rightarrow> bytes \<Rightarrow> exn + fsys" where
  "open_ab_write fs p data =
     (if p \<in> denied fs then Inl IOError
      else Inr (fs\<lparr>files := (files fs)
                  (p \<mapsto> (case files fs p of None \<Rightarrow> [] | Some c \<Rightarrow> c) @ data)\<rparr>))"

definition remove :: "fsys \<Rightarrow> string \<Rightarrow> fsys" where
  "remove fs p = fs\<lparr>files := (files fs)(p := None)\<rparr>"

definition rename :: "fsys \<Rightarrow> string \<Rightarrow> string \<Rightarrow> fsys" where
  "rename fs src dst = fs\<lparr>files := ((files fs)(src := None))(dst := files fs src)\<rparr>"

subsection \<open>Configuration\<close>

text \<open>
  \<^verbatim>\<open>cfg\<close> is a \<^verbatim>\<open>ConfigParser\<close>: \<^verbatim>\<open>get\<close> raises when the option is not
  set, \<^verbatim>\<open>getboolean\<close> accepts the eight spellings of the standard library in any
  letter case and raises \<^verbatim>\<open>ValueError\<close> on anything else, and \<^verbatim>\<open>int\<close>
  reads a decimal number with an optional sign, surrounded by blanks.

  The map holds, for each option that is set, the value as \<^verbatim>\<open>get\<close> returns it,
  that is after the interpolation of \<^verbatim>\<open>%(name)s\<close>; a value that
  \<^verbatim>\<open>ConfigParser\<close> cannot interpolate makes \<^verbatim>\<open>get\<close> raise, which the
  map does not express. \<open>py_int\<close> is \<^verbatim>\<open>int\<close> as Python 2 has it; from
  Python 3.6 on \<^verbatim>\<open>int\<close> also accepts an underscore between two digits, which
  \<open>py_int\<close> refuses. Both differences lie inside \<^verbatim>\<open>try\<close> blocks with a bare
  \<^verbatim>\<open>except\<close>, or at the two reads of the paths; no property below depends on
  them.
\<close>

type_synonym config = "string \<times> string \<rightharpoonup> string"

definition cfg_get :: "config \<Rightarrow> string \<Rightarrow> string \<Rightarrow> exn + string" where
  "cfg_get cfg section option =
     (case cfg (section, option) of None \<Rightarrow> Inl NoOptionError | Some v \<Rightarrow> Inr v)"

definition boolean_states :: "string \<rightharpoonup> bool" where
  "boolean_states =
     [''1'' \<mapsto> True, ''yes'' \<mapsto> True, ''true'' \<mapsto> True, ''on'' \<mapsto> True,
      ''0'' \<mapsto> False, ''no'' \<mapsto> False, ''false'' \<mapsto> False, ''off'' \<mapsto> False]"

definition getboolean :: "config \<Rightarrow> string \<Rightarrow> string \<Rightarrow> exn + bool" where
  "getboolean cfg section option =
     (case cfg_get cfg section option of
        Inl e \<Rightarrow> Inl e
      | Inr v \<Rightarrow>
          (case boolean_states (lower v) of None \<Rightarrow> Inl ValueError | Some b \<Rightarrow> Inr b))"

definition is_digit :: "char \<Rightarrow> bool" where
  "is_digit c = (48 \<le> (of_char c :: nat) \<and> (of_char c :: nat) \<le> 57)"

definition is_blank :: "char \<Rightarrow> bool" where
  "is_blank c = ((of_char c :: nat) = 32 \<or> (9 \<le> (of_char c :: nat) \<and> (of_char c :: nat) \<le> 13))"

definition strip :: "string \<Rightarrow> string" where
  "strip s = rev (dropWhile is_blank (rev (dropWhile is_blank s)))"

definition digits_value :: "string \<Rightarrow> int" where
  "digits_value ds = foldl (\<lambda>acc c. 10 * acc + (int (of_char c) - 48)) 0 ds"

definition py_int :: "string \<Rightarrow> exn + int" where
  "py_int s =
     (let t = strip s;
          (neg, ds) = (case t of
                         c # r \<Rightarrow> if c = CHR ''-'' then (True, r)
                                  else if c = CHR ''+'' then (False, r) else (False, t)
                       | [] \<Rightarrow> (False, t))
      in if ds \<noteq> [] \<and> list_all is_digit ds
         then Inr (if neg then - digits_value ds else digits_value ds)
         else Inl ValueError)"

section \<open>The protocol object\<close>

subsection \<open>What the object does to the outside\<close>

text \<open>
  Calls into Twisted, into \<^verbatim>\<open>cowrie.core.ttylog\<close>, into the logger and into the
  object-storage client are recorded, in order, as the effects of a method call. The
  transcript of a session is the sequence of its \<^verbatim>\<open>ttylog_write\<close> calls. Clock
  readings are handed to each method by its caller.
\<close>

type_synonym timestamp = int
type_synonym reason = string

datatype direction = TYPE_INPUT | TYPE_OUTPUT

datatype capture = Stdin | Redir

datatype logmsg =
    Log_open string
      \<comment> \<open>\<^verbatim>\<open>cowrie.log.open\<close>: ttylog\<close>
  | Limit_reached
      \<comment> \<open>\<^verbatim>\<open>Data upload limit reached\<close>\<close>
  | Not_storing_duplicate string
      \<comment> \<open>\<^verbatim>\<open>"Not storing duplicate content " + shasum\<close>\<close>
  | File_download capture string string string
      \<comment> \<open>\<^verbatim>\<open>cowrie.session.file_download\<close>: format, url, outfile, shasum\<close>
  | Log_closed string int timestamp
      \<comment> \<open>\<^verbatim>\<open>cowrie.log.closed\<close>: ttylog, size, duration\<close>
  | Log_uploaded string
      \<comment> \<open>\<^verbatim>\<open>cowrie.log.uploaded\<close>: ttylog\<close>

datatype effect =
    Log_msg logmsg
  | Ttylog_open string timestamp
  | Ttylog_write string nat direction timestamp bytes
  | Ttylog_close string timestamp
  | Terminal_eofReceived
  | Super_connectionMade
  | Super_write bytes
  | Super_dataReceived bytes
  | Super_connectionLost reason
  | Transport_loseConnection
  | Fput_object string string string

subsection \<open>The fields\<close>

text \<open>
  \<open>prot\<close> is the terminal protocol class given to the constructor, if any.
  \<open>redirFiles\<close> is a Python set of pairs (path, url or None); it is kept as the list of
  its members in the order in which the teardown loop visits them. \<open>terminalProtocol\<close>
  says whether the handle of the parent class is set: Twisted's
  \<^verbatim>\<open>ServerProtocol.connectionMade\<close> creates the terminal protocol from the class it
  was given and \<^verbatim>\<open>ServerProtocol.connectionLost\<close> resets the handle to
  \<^verbatim>\<open>None\<close>. An attribute that Python creates on its first assignment is a field with a
  default value here; the methods read such an attribute only behind the flag that is set
  after the assignment.
\<close>

datatype protocol_class = HoneyPotExecProtocol | HoneyPotInteractiveProtocol

record session =
  prot :: "protocol_class option"
  bytesReceived :: int
  ttylogPath :: string
  downloadPath :: string
  ttylogEnabled :: bool
  minioEnabled :: bool
  minioServer :: string
  minioAccess :: string
  minioSecret :: string
  minioBucket :: string
  minioSecure :: bool
  minioc :: "(string \<times> string \<times> string \<times> bool) option"
  redirFiles :: "(string \<times> string option) list"
  bytesReceivedLimit :: int
  stype :: char
  stdinlogOpen :: bool
  ttylogOpen :: bool
  redirlogOpen :: bool
  startTime :: timestamp
  ttylogFile :: string
  ttylogSize :: int
  stdinlogFile :: string
  terminalProtocol :: bool

definition new_session :: "protocol_class option \<Rightarrow> session" where
  "new_session p =
     \<lparr>prot = p, bytesReceived = 0, ttylogPath = [], downloadPath = [],
      ttylogEnabled = False, minioEnabled = False, minioServer = [], minioAccess = [],
      minioSecret = [], minioBucket = [], minioSecure = False, minioc = None,
      redirFiles = [], bytesReceivedLimit = 0, stype = CHR ''i'',
      stdinlogOpen = False, ttylogOpen = False, redirlogOpen = False,
      startTime = 0, ttylogFile = [], ttylogSize = 0, stdinlogFile = [],
      terminalProtocol = False\<rparr>"

subsection \<open>\<^verbatim>\<open>__init__\<close>\<close>

text \<open>
  The constructor of the storage client is a parameter \<open>Minio\<close>: it is given server,
  access key, secret key and the TLS flag, and answers \<open>Some e\<close> when it raises \<open>e\<close>.
  The three \<^verbatim>\<open>try\<close> blocks have a bare \<^verbatim>\<open>except\<close>; the two reads of
  \<^verbatim>\<open>log_path\<close> and \<^verbatim>\<open>download_path\<close> stand outside any handler.
\<close>

type_synonym minio_ctor = "string \<Rightarrow> string \<Rightarrow> string \<Rightarrow> bool \<Rightarrow> exn option"

definition init_ttylog :: "config \<Rightarrow> session \<Rightarrow> session" where
  "init_ttylog cfg s =
     (case getboolean cfg ''honeypot'' ''ttylog'' of
        Inr b \<Rightarrow> s\<lparr>ttylogEnabled := b\<rparr>
      | Inl e \<Rightarrow> s\<lparr>ttylogEnabled := True\<rparr>)"

definition init_minio :: "minio_ctor \<Rightarrow> config \<Rightarrow> session \<Rightarrow> session" where
  "init_minio Minio cfg s =
     (case getboolean cfg ''honeypot'' ''minio'' of
        Inl e \<Rightarrow> s\<lparr>minioEnabled := False\<rparr>
      | Inr en \<Rightarrow>
     (let s1 = s\<lparr>minioEnabled := en\<rparr> in
      case cfg_get cfg ''honeypot'' ''minio_server'' of
        Inl e \<Rightarrow> s1\<lparr>minioEnabled := False\<rparr>
      | Inr srv \<Rightarrow>
     (let s2 = s1\<lparr>minioServer := srv\<rparr> in
      case cfg_get cfg ''honeypot'' ''minio_access_key'' of
        Inl e \<Rightarrow> s2\<lparr>minioEnabled := False\<rparr>
      | Inr acc \<Rightarrow>
     (let s3 = s2\<lparr>minioAccess := acc\<rparr> in
      case cfg_get cfg ''honeypot'' ''minio_secret'' of
        Inl e \<Rightarrow> s3\<lparr>minioEnabled := False\<rparr>
      | Inr sec \<Rightarrow>
     (let s4 = s3\<lparr>minioSecret := sec\<rparr> in
      case cfg_get cfg ''honeypot'' ''minio_bucket'' of
        Inl e \<Rightarrow> s4\<lparr>minioEnabled := False\<rparr>
      | Inr bkt \<Rightarrow>
     (let s5 = s4\<lparr>minioBucket := bkt\<rparr> in
      case getboolean cfg ''honeypot'' ''minio_use_ssl'' of
        Inl e \<Rightarrow> s5\<lparr>minioEnabled := False\<rparr>
      | Inr ssl \<Rightarrow>
     (let s6 = s5\<lparr>minioSecure := ssl\<rparr> in
      case Minio srv acc sec ssl of
        Some e \<Rightarrow> s6\<lparr>minioEnabled := False\<rparr>
      | None \<Rightarrow> s6\<lparr>minioc := Some (srv, acc, sec, ssl)\<rparr>)))))))"

definition init_limit :: "config \<Rightarrow> session \<Rightarrow> session" where
  "init_limit cfg s =
     (case cfg_get cfg ''honeypot'' ''download_limit_size'' of
        Inl e \<Rightarrow> s\<lparr>bytesReceivedLimit := 0\<rparr>
      | Inr v \<Rightarrow>
          (case py_int v of
             Inl e \<Rightarrow> s\<lparr>bytesReceivedLimit := 0\<rparr>
           | Inr n \<Rightarrow> s\<lparr>bytesReceivedLimit := n\<rparr>))"

definition init_type :: "session \<Rightarrow> session" where
  "init_type s =
     (if prot s = Some HoneyPotExecProtocol then s\<lparr>stype := CHR ''e''\<rparr>
      else s\<lparr>stype := CHR ''i''\<rparr>)"

definition init :: "minio_ctor \<Rightarrow> config \<Rightarrow> protocol_class option \<Rightarrow> exn + session" where
  "init Minio cfg p =
     (case cfg_get cfg ''honeypot'' ''log_path'' of
        Inl e \<Rightarrow> Inl e
      | Inr lp \<Rightarrow>
          (case cfg_get cfg ''honeypot'' ''download_path'' of
             Inl e \<Rightarrow> Inl e
           | Inr dp \<Rightarrow>
               Inr (init_type (init_limit cfg
                      ((init_minio Minio cfg
                          (init_ttylog cfg
                             ((new_session p)\<lparr>bytesReceived := 0, ttylogPath := lp,
                                                downloadPath := dp\<rparr>)))
                       \<lparr>redirFiles := []\<rparr>)))))"

subsection \<open>\<^verbatim>\<open>connectionMade\<close>, \<^verbatim>\<open>write\<close> (here \<open>write_prot\<close>), \<^verbatim>\<open>eofReceived\<close>, \<^verbatim>\<open>loseConnection\<close>\<close>

text \<open>
  \<open>transportId\<close> and \<open>channelId\<close> are the two components of
  \<^verbatim>\<open>getSessionId()\<close> as \<^verbatim>\<open>%s\<close> prints them; \<open>now\<close> is
  \<^verbatim>\<open>time.time()\<close>, and \<open>stamp1\<close>, \<open>stamp2\<close> are the two results of
  \<^verbatim>\<open>time.strftime('%Y%m%d-%H%M%S')\<close>.
\<close>

definition connectionMade ::
  "string \<Rightarrow> string \<Rightarrow> timestamp \<Rightarrow> string \<Rightarrow> string \<Rightarrow> session \<Rightarrow> session \<times> effect list" where
  "connectionMade transportId channelId now stamp1 stamp2 s =
     (let s1 = s\<lparr>startTime := now\<rparr>;
          (s2, es) =
            (if ttylogEnabled s1 then
               (let f = ttylogPath s1 @ ''/tty/'' @ stamp1 @ ''-'' @ transportId @ ''-''
                          @ channelId @ [stype s1] @ ''.log''
                in (s1\<lparr>ttylogFile := f, ttylogOpen := True, ttylogSize := 0\<rparr>,
                    [Ttylog_open f (startTime s1), Log_msg (Log_open f)]))
             else (s1, []));
          s3 = s2\<lparr>stdinlogFile := downloadPath s2 @ ''/'' @ stamp2 @ ''-'' @ transportId
                                       @ ''-'' @ channelId @ ''-stdin.log''\<rparr>;
          s4 = (if stype s3 = CHR ''e'' then s3\<lparr>stdinlogOpen := True\<rparr>
                else s3\<lparr>stdinlogOpen := False\<rparr>)
      in (s4\<lparr>terminalProtocol := (prot s4 \<noteq> None)\<rparr>, es @ [Super_connectionMade]))"

definition write_prot :: "timestamp \<Rightarrow> bytes \<Rightarrow> session \<Rightarrow> session \<times> effect list" where
  "write_prot now data s =
     (if ttylogEnabled s \<and> ttylogOpen s then
        (s\<lparr>ttylogSize := ttylogSize s + int (length data)\<rparr>,
         [Ttylog_write (ttylogFile s) (length data) TYPE_OUTPUT now data, Super_write data])
      else (s, [Super_write data]))"

definition eofReceived :: "session \<Rightarrow> effect list" where
  "eofReceived s = (if terminalProtocol s then [Terminal_eofReceived] else [])"

definition loseConnection :: "session \<Rightarrow> effect list" where
  "loseConnection s = [Transport_loseConnection]"

subsection \<open>\<^verbatim>\<open>dataReceived\<close>\<close>

text \<open>
  The counter is raised first; then the limit is tested, and a call that is over the limit
  logs, forwards the end of input and returns. Only after that test is the chunk appended
  to the stdin capture or written to the transcript. An \<^verbatim>\<open>IOError\<close> of the
  \<^verbatim>\<open>open\<close> for appending is not handled and leaves the method, after the counter
  was raised.
\<close>

definition dataReceived ::
  "timestamp \<Rightarrow> bytes \<Rightarrow> session \<Rightarrow> fsys \<Rightarrow> outcome \<times> session \<times> fsys \<times> effect list" where
  "dataReceived now data s fs =
     (let s1 = s\<lparr>bytesReceived := bytesReceived s + int (length data)\<rparr>;
          fwd = (if terminalProtocol s1 then [Super_dataReceived data] else [])
      in if bytesReceivedLimit s1 \<noteq> 0 \<and> bytesReceived s1 > bytesReceivedLimit s1 then
           (Returned, s1, fs, Log_msg Limit_reached # eofReceived s1)
         else if stdinlogOpen s1 then
           (case open_ab_write fs (stdinlogFile s1) data of
              Inl e \<Rightarrow> (Raised e, s1, fs, [])
            | Inr fs' \<Rightarrow> (Returned, s1, fs', fwd))
         else if ttylogEnabled s1 \<and> ttylogOpen s1 then
           (Returned, s1, fs,
            Ttylog_write (ttylogFile s1) (length data) TYPE_INPUT now data # fwd)
         else (Returned, s1, fs, fwd))"

text \<open>
  A session receives its chunks one call after the other; a call that raises ends the
  delivery.
\<close>

fun feed ::
  "(timestamp \<times> bytes) list \<Rightarrow> session \<Rightarrow> fsys \<Rightarrow> outcome \<times> session \<times> fsys \<times> effect list" where
  "feed [] s fs = (Returned, s, fs, [])"
| "feed ((now, data) # rest) s fs =
     (case dataReceived now data s fs of
        (Raised e, s1, fs1, es) \<Rightarrow> (Raised e, s1, fs1, es)
      | (Returned, s1, fs1, es) \<Rightarrow>
          (case feed rest s1 fs1 of (out, s2, fs2, es') \<Rightarrow> (out, s2, fs2, es @ es')))"

subsection \<open>\<^verbatim>\<open>connectionLost\<close>\<close>

text \<open>
  The stdin capture: read, hash, then either remove the capture (the digest is already
  stored) or rename it to its digest; the download event is logged after the
  \<^verbatim>\<open>with\<close> block on both paths. An \<^verbatim>\<open>IOError\<close> is swallowed, and the flag is
  cleared in the \<^verbatim>\<open>finally\<close> clause.
\<close>

definition finalize_stdin ::
  "digest \<Rightarrow> session \<Rightarrow> fsys \<Rightarrow> session \<times> fsys \<times> effect list" where
  "finalize_stdin sha256 s fs =
     (if stdinlogOpen s then
        (case open_rb_read fs (stdinlogFile s) of
           Inl e \<Rightarrow> (s\<lparr>stdinlogOpen := False\<rparr>, fs, [])
         | Inr content \<Rightarrow>
             (let shasum = sha256 content;
                  shasumfile = path_join (downloadPath s) shasum;
                  ev = Log_msg (File_download Stdin ''stdin'' shasumfile shasum)
              in if path_exists fs shasumfile then
                   (s\<lparr>stdinlogOpen := False\<rparr>, remove fs (stdinlogFile s),
                    [Log_msg (Not_storing_duplicate shasum), ev])
                 else
                   (s\<lparr>stdinlogOpen := False\<rparr>, rename fs (stdinlogFile s) shasumfile,
                    [ev])))
      else (s, fs, []))"

text \<open>One pass of the loop over \<^verbatim>\<open>redirFiles\<close>, for the pair \<open>rp\<close>.\<close>

definition redir_url :: "string \<times> string option \<Rightarrow> string" where
  "redir_url rp =
     (case snd rp of
        Some u \<Rightarrow> if u \<noteq> [] then u
                  else slice_from (fst rp) (find_str (fst rp) ''redir_'' + 6)
      | None \<Rightarrow> slice_from (fst rp) (find_str (fst rp) ''redir_'' + 6))"

definition finalize_redir ::
  "digest \<Rightarrow> string \<Rightarrow> string \<times> string option \<Rightarrow> fsys \<Rightarrow> fsys \<times> effect list" where
  "finalize_redir sha256 dl rp fs =
     (let rf = fst rp; url = redir_url rp
      in if \<not> path_exists fs rf then (fs, [])
         else if getsize fs rf = 0 then (remove fs rf, [])
         else
           (case open_rb_read fs rf of
              Inl e \<Rightarrow> (fs, [])
            | Inr content \<Rightarrow>
                (let shasum = sha256 content;
                     shasumfile = path_join dl shasum;
                     ev = Log_msg (File_download Redir url shasumfile shasum)
                 in if path_exists fs shasumfile then
                      (remove fs rf, [Log_msg (Not_storing_duplicate shasum), ev])
                    else (rename fs rf shasumfile, [ev]))))"

fun drain_redir ::
  "digest \<Rightarrow> string \<Rightarrow> (string \<times> string option) list \<Rightarrow> fsys \<Rightarrow> fsys \<times> effect list" where
  "drain_redir sha256 dl [] fs = (fs, [])"
| "drain_redir sha256 dl (rp # rps) fs =
     (case finalize_redir sha256 dl rp fs of
        (fs1, es) \<Rightarrow>
          (case drain_redir sha256 dl rps fs1 of (fs2, es') \<Rightarrow> (fs2, es @ es')))"

text \<open>
  Closing the transcript. \<open>fput_object\<close> is the upload of the storage client: bucket,
  object name, file path; it answers \<open>Some e\<close> when it raises \<open>e\<close>. The handler names
  \<^verbatim>\<open>ResponseError\<close> and no other class. \<open>t1\<close> and \<open>t2\<close> are the two readings
  of the clock.
\<close>

type_synonym uploader = "string \<Rightarrow> string \<Rightarrow> string \<Rightarrow> exn option"

definition close_ttylog ::
  "uploader \<Rightarrow> timestamp \<Rightarrow> timestamp \<Rightarrow> session \<Rightarrow> outcome \<times> session \<times> effect list" where
  "close_ttylog fput_object t1 t2 s =
     (if ttylogEnabled s \<and> ttylogOpen s then
        (let es = [Log_msg (Log_closed (ttylogFile s) (ttylogSize s) (t1 - startTime s)),
                   Ttylog_close (ttylogFile s) t2];
             s1 = s\<lparr>ttylogOpen := False\<rparr>
         in if minioEnabled s1 then
              (case fput_object (minioBucket s1) (ttylogFile s1) (ttylogFile s1) of
                 None \<Rightarrow>
                   (Returned, s1,
                    es @ [Fput_object (minioBucket s1) (ttylogFile s1) (ttylogFile s1),
                          Log_msg (Log_uploaded (ttylogFile s1))])
               | Some e \<Rightarrow>
                   (if e = ResponseError then Returned else Raised e, s1,
                    es @ [Fput_object (minioBucket s1) (ttylogFile s1) (ttylogFile s1)]))
            else (Returned, s1, es))
      else (Returned, s, []))"

definition connectionLost ::
  "digest \<Rightarrow> uploader \<Rightarrow> reason \<Rightarrow> timestamp \<Rightarrow> timestamp \<Rightarrow> session \<Rightarrow> fsys
     \<Rightarrow> outcome \<times> session \<times> fsys \<times> effect list" where
  "connectionLost sha256 fput_object reason t1 t2 s fs =
     (case finalize_stdin sha256 s fs of
        (s1, fs1, es1) \<Rightarrow>
          (case (if redirFiles s1 \<noteq> []
                 then (case drain_redir sha256 (downloadPath s1) (redirFiles s1) fs1 of
                         (fs2, es2) \<Rightarrow> (s1\<lparr>redirFiles := []\<rparr>, fs2, es2))
                 else (s1, fs1, [])) of
             (s2, fs2, es2) \<Rightarrow>
               (case close_ttylog fput_object t1 t2 s2 of
                  (Raised e, s3, es3) \<Rightarrow> (Raised e, s3, fs2, es1 @ es2 @ es3)
                | (Returned, s3, es3) \<Rightarrow>
                    (Returned, s3\<lparr>terminalProtocol := False\<rparr>, fs2,
                     es1 @ es2 @ es3 @ [Super_connectionLost reason]))))"

section \<open>Sessions used as examples\<close>

text \<open>
  A configuration with a limit of four octets and no object storage, and the exec session
  that the constructor and \<^verbatim>\<open>connectionMade\<close> build from it.
\<close>

definition example_cfg :: config where
  "example_cfg =
     [(''honeypot'', ''log_path'') \<mapsto> ''/log'',
      (''honeypot'', ''download_path'') \<mapsto> ''/dl'',
      (''honeypot'', ''download_limit_size'') \<mapsto> ''4'']"

definition no_minio :: minio_ctor where
  "no_minio srv acc sec ssl = Some (OtherError ''unreachable'')"

definition exec_session :: session where
  "exec_session =
     \<lparr>prot = Some HoneyPotExecProtocol, bytesReceived = 0, ttylogPath = ''/log'',
      downloadPath = ''/dl'', ttylogEnabled = True, minioEnabled = False,
      minioServer = [], minioAccess = [], minioSecret = [], minioBucket = [],
      minioSecure = False, minioc = None, redirFiles = [], bytesReceivedLimit = 4,
      stype = CHR ''e'', stdinlogOpen = True, ttylogOpen = True, redirlogOpen = False,
      startTime = 0, ttylogFile = ''/log/tty/d-t-0e.log'', ttylogSize = 0,
      stdinlogFile = ''/dl/d-t-0-stdin.log'', terminalProtocol = True\<rparr>"

definition empty_fs :: fsys where
  "empty_fs = \<lparr>files = Map.empty, denied = {}\<rparr>"

definition interactive_session :: session where
  "interactive_session =
     \<lparr>prot = Some HoneyPotInteractiveProtocol, bytesReceived = 0, ttylogPath = ''/log'',
      downloadPath = ''/dl'', ttylogEnabled = True, minioEnabled = False,
      minioServer = [], minioAccess = [], minioSecret = [], minioBucket = [],
      minioSecure = False, minioc = None, redirFiles = [], bytesReceivedLimit = 4,
      stype = CHR ''i'', stdinlogOpen = False, ttylogOpen = True, redirlogOpen = False,
      startTime = 0, ttylogFile = ''/log/tty/d-t-0i.log'', ttylogSize = 0,
      stdinlogFile = ''/dl/d-t-0-stdin.log'', terminalProtocol = True\<rparr>"

text \<open>
  A configuration with object storage, and the interactive session built from it; three
  uploads (one that succeeds, one that raises \<^verbatim>\<open>ResponseError\<close>, one that raises
  another class because the server cannot be reached); and two file systems: one with a
  stdin capture of three octets, one where the digest of these octets is already stored.
\<close>

definition archive_cfg :: config where
  "archive_cfg =
     [(''honeypot'', ''log_path'') \<mapsto> ''/log'',
      (''honeypot'', ''download_path'') \<mapsto> ''/dl'',
      (''honeypot'', ''minio'') \<mapsto> ''true'',
      (''honeypot'', ''minio_server'') \<mapsto> ''minio:9000'',
      (''honeypot'', ''minio_access_key'') \<mapsto> ''key'',
      (''honeypot'', ''minio_secret'') \<mapsto> ''secret'',
      (''honeypot'', ''minio_bucket'') \<mapsto> ''ttylogs'',
      (''honeypot'', ''minio_use_ssl'') \<mapsto> ''no'']"

definition ok_minio :: minio_ctor where
  "ok_minio srv acc sec ssl = None"

definition archive_session :: session where
  "archive_session =
     \<lparr>prot = Some HoneyPotInteractiveProtocol, bytesReceived = 0, ttylogPath = ''/log'',
      downloadPath = ''/dl'', ttylogEnabled = True, minioEnabled = True,
      minioServer = ''minio:9000'', minioAccess = ''key'', minioSecret = ''secret'',
      minioBucket = ''ttylogs'', minioSecure = False,
      minioc = Some (''minio:9000'', ''key'', ''secret'', False), redirFiles = [],
      bytesReceivedLimit = 0, stype = CHR ''i'', stdinlogOpen = False, ttylogOpen = True,
      redirlogOpen = False, startTime = 0, ttylogFile = ''/log/tty/d-t-0i.log'',
      ttylogSize = 0, stdinlogFile = ''/dl/d-t-0-stdin.log'', terminalProtocol = True\<rparr>"

definition upload_ok :: uploader where
  "upload_ok bucket name path = None"

definition upload_response_error :: uploader where
  "upload_response_error bucket name path = Some ResponseError"

definition upload_unreachable :: uploader where
  "upload_unreachable bucket name path = Some (OtherError ''MaxRetryError'')"

definition captured_fs :: fsys where
  "captured_fs =
     \<lparr>files = [''/dl/d-t-0-stdin.log'' \<mapsto> [1, 2, 3]], denied = {}\<rparr>"

definition duplicate_fs :: fsys where
  "duplicate_fs =
     \<lparr>files = [''/dl/d-t-0-stdin.log'' \<mapsto> [1, 2, 3],
               ''/dl/redir_out'' \<mapsto> [1, 2, 3],
               ''/dl/h010203'' \<mapsto> [1, 2, 3]],
      denied = {}\<rparr>"

text \<open>A configuration whose \<^verbatim>\<open>ttylog\<close> option is no boolean.\<close>

definition unparsable_cfg :: config where
  "unparsable_cfg =
     [(''honeypot'', ''log_path'') \<mapsto> ''/log'',
      (''honeypot'', ''download_path'') \<mapsto> ''/dl'',
      (''honeypot'', ''ttylog'') \<mapsto> ''maybe'']"

section \<open>Notions used to state the properties\<close>

text \<open>The number of octets in a sequence of chunks, each with the time of its call.\<close>

definition total_len :: "(timestamp \<times> bytes) list \<Rightarrow> int" where
  "total_len cs = sum_list (map (\<lambda>c. int (length (snd c))) cs)"

text \<open>What a path holds, a path without a file holding nothing.\<close>

definition contents :: "fsys \<Rightarrow> string \<Rightarrow> bytes" where
  "contents fs p = (case files fs p of None \<Rightarrow> [] | Some c \<Rightarrow> c)"

text \<open>
  The INPUT records of a transcript, in order: file, payload length, time and payload of
  every \<^verbatim>\<open>ttylog_write\<close> call with \<^verbatim>\<open>TYPE_INPUT\<close>.
\<close>

fun input_records :: "effect list \<Rightarrow> (string \<times> nat \<times> timestamp \<times> bytes) list" where
  "input_records [] = []"
| "input_records (Ttylog_write f n TYPE_INPUT t p # es) = (f, n, t, p) # input_records es"
| "input_records (e # es) = input_records es"

text \<open>
  The \<^verbatim>\<open>ttylog\<close> option is absent, or its value is none of the spellings that
  \<^verbatim>\<open>getboolean\<close> reads.
\<close>

definition ttylog_absent_or_unparsable :: "config \<Rightarrow> bool" where
  "ttylog_absent_or_unparsable cfg =
     (case cfg (''honeypot'', ''ttylog'') of
        None \<Rightarrow> True
      | Some v \<Rightarrow>
          lower v \<notin> {''1'', ''yes'', ''true'', ''on'', ''0'', ''no'', ''false'', ''off''})"

text \<open>
  Something in the \<^verbatim>\<open>try\<close> block of the object storage raises: one of the six
  reads of the configuration, or, when all of them succeed, the constructor of the client.
\<close>

definition minio_setup_raises :: "minio_ctor \<Rightarrow> config \<Rightarrow> bool" where
  "minio_setup_raises Minio cfg =
     (isl (getboolean cfg ''honeypot'' ''minio'')
      \<or> isl (cfg_get cfg ''honeypot'' ''minio_server'')
      \<or> isl (cfg_get cfg ''honeypot'' ''minio_access_key'')
      \<or> isl (cfg_get cfg ''honeypot'' ''minio_secret'')
      \<or> isl (cfg_get cfg ''honeypot'' ''minio_bucket'')
      \<or> isl (getboolean cfg ''honeypot'' ''minio_use_ssl'')
      \<or> Minio (projr (cfg_get cfg ''honeypot'' ''minio_server''))
               (projr (cfg_get cfg ''honeypot'' ''minio_access_key''))
               (projr (cfg_get cfg ''honeypot'' ''minio_secret''))
               (projr (getboolean cfg ''honeypot'' ''minio_use_ssl'')) \<noteq> None)"

text \<open>
  The states of a session in its life after the constructor: any number of calls of its
  methods, with any arguments, and of registrations of redirect files, which the command
  layer (\<^verbatim>\<open>core/protocol.py\<close>) does on the object.
\<close>

inductive evolves :: "session \<Rightarrow> session \<Rightarrow> bool" where
  start: "evolves s s"
| made: "evolves s s1 \<Longrightarrow> evolves s (fst (connectionMade tid cid now st1 st2 s1))"
| wrote: "evolves s s1 \<Longrightarrow> evolves s (fst (write_prot now d s1))"
| received: "evolves s s1 \<Longrightarrow> evolves s (fst (snd (dataReceived now d s1 fs)))"
| registered: "evolves s s1 \<Longrightarrow> evolves s (s1\<lparr>redirFiles := rps, redirlogOpen := b\<rparr>)"
| lost: "evolves s s1 \<Longrightarrow> evolves s (fst (snd (connectionLost sha up r ta tb s1 fs)))"

text \<open>The effects that are calls of the logger.\<close>

fun is_log_msg :: "effect \<Rightarrow> bool" where
  "is_log_msg (Log_msg m) = True"
| "is_log_msg e = False"

section \<open>Properties\<close>

subsection \<open>The example sessions are sessions of the program\<close>

lemma py_int_4: "py_int ''4'' = Inr 4"
  by (simp add: py_int_def strip_def is_blank_def is_digit_def digits_value_def)

lemma exec_session_reachable:
  "(case init no_minio example_cfg (Some HoneyPotExecProtocol) of
      Inl e \<Rightarrow> False
    | Inr s0 \<Rightarrow>
        connectionMade ''t'' ''0'' 0 ''d'' ''d'' s0
          = (exec_session,
             [Ttylog_open ''/log/tty/d-t-0e.log'' 0,
              Log_msg (Log_open ''/log/tty/d-t-0e.log''), Super_connectionMade]))"
  by (auto simp add: init_def example_cfg_def cfg_get_def init_ttylog_def getboolean_def
      init_minio_def init_limit_def py_int_4 init_type_def new_session_def
      connectionMade_def exec_session_def Let_def)

lemma interactive_session_reachable:
  "(case init no_minio example_cfg (Some HoneyPotInteractiveProtocol) of
      Inl e \<Rightarrow> False
    | Inr s0 \<Rightarrow>
        connectionMade ''t'' ''0'' 0 ''d'' ''d'' s0
          = (interactive_session,
             [Ttylog_open ''/log/tty/d-t-0i.log'' 0,
              Log_msg (Log_open ''/log/tty/d-t-0i.log''), Super_connectionMade]))"
  by (auto simp add: init_def example_cfg_def cfg_get_def init_ttylog_def getboolean_def
      init_minio_def init_limit_def py_int_4 init_type_def new_session_def
      connectionMade_def interactive_session_def Let_def)

lemma archive_session_reachable:
  "(case init ok_minio archive_cfg (Some HoneyPotInteractiveProtocol) of
      Inl e \<Rightarrow> False
    | Inr s0 \<Rightarrow>
        connectionMade ''t'' ''0'' 0 ''d'' ''d'' s0
          = (archive_session,
             [Ttylog_open ''/log/tty/d-t-0i.log'' 0,
              Log_msg (Log_open ''/log/tty/d-t-0i.log''), Super_connectionMade]))"
  by (auto simp add: init_def archive_cfg_def cfg_get_def init_ttylog_def getboolean_def
      init_minio_def init_limit_def init_type_def new_session_def ok_minio_def
      boolean_states_def lower_def lower_char_def
      connectionMade_def archive_session_def Let_def)

subsection \<open>One call of \<^verbatim>\<open>dataReceived\<close>\<close>

lemma dataReceived_step:
  assumes "dataReceived now d s fs = (out, s', fs', es)"
  shows "s' = s\<lparr>bytesReceived := bytesReceived s + int (length d)\<rparr>"
  using assms by (auto simp add: dataReceived_def Let_def split: if_splits sum.splits)

text \<open>
  Claim C7, as the code has it. Every call adds the length of its chunk to
  \<open>bytesReceived\<close>, also a call that is over the limit, so the counter never decreases
  and is not held at the limit. What a non-zero limit decides is whether the call is cut
  short: the call logs the limit, forwards the end of input and touches nothing else exactly
  when the counter, this chunk included, is above the limit. A chunk that is processed
  therefore leaves the counter at or below the limit, and with a limit of 0 no call is cut
  short.
\<close>

theorem dataReceived_counter:
  assumes "dataReceived now d s fs = (out, s', fs', es)"
  shows "bytesReceived s' = bytesReceived s + int (length d)
       \<and> bytesReceived s \<le> bytesReceived s'
       \<and> bytesReceivedLimit s' = bytesReceivedLimit s
       \<and> (bytesReceivedLimit s \<noteq> 0 \<and> bytesReceivedLimit s < bytesReceived s')
           = (out = Returned \<and> fs' = fs \<and> es = Log_msg Limit_reached # eofReceived s')"
  using assms
  by (auto simp add: dataReceived_def Let_def eofReceived_def split: if_splits sum.splits)

theorem dataReceived_counter_witness:
  "dataReceived 0 [1, 2, 3, 4, 5, 6] exec_session empty_fs
     = (Returned, exec_session\<lparr>bytesReceived := 6\<rparr>, empty_fs,
        [Log_msg Limit_reached, Terminal_eofReceived])
   \<and> bytesReceived (exec_session\<lparr>bytesReceived := 6\<rparr>) = bytesReceived exec_session + 6
   \<and> bytesReceivedLimit exec_session < bytesReceived (exec_session\<lparr>bytesReceived := 6\<rparr>)"
proof -
  have h: "dataReceived 0 [1, 2, 3, 4, 5, 6] exec_session empty_fs
     = (Returned, exec_session\<lparr>bytesReceived := 6\<rparr>, empty_fs,
        [Log_msg Limit_reached, Terminal_eofReceived])"
    by (simp add: dataReceived_def exec_session_def eofReceived_def)
  from dataReceived_counter [OF h] h show ?thesis by (simp add: exec_session_def)
qed

text \<open>
  The claim as it is written fails: with a limit of 4, one chunk of six octets leaves the
  counter at 6.
\<close>

theorem counter_capped_counterexample:
  "bytesReceivedLimit exec_session = 4
   \<and> bytesReceived (fst (snd (dataReceived 0 [1, 2, 3, 4, 5, 6] exec_session empty_fs))) = 6"
  by (simp add: dataReceived_def exec_session_def eofReceived_def)

subsection \<open>Sequences of calls\<close>

lemma total_len_simps [simp]:
  "total_len [] = 0"
  "total_len (c # cs) = int (length (snd c)) + total_len cs"
  "total_len (xs @ ys) = total_len xs + total_len ys"
  by (simp_all add: total_len_def)

lemma total_len_nonneg: "0 \<le> total_len cs"
  by (induction cs) simp_all

lemma dataReceived_over_limit:
  assumes "bytesReceivedLimit s \<noteq> 0"
    and "bytesReceivedLimit s < bytesReceived s + int (length d)"
  shows "dataReceived now d s fs
           = (Returned, s\<lparr>bytesReceived := bytesReceived s + int (length d)\<rparr>, fs,
              Log_msg Limit_reached # eofReceived s)"
  using assms by (simp add: dataReceived_def eofReceived_def)

lemma dataReceived_stdin:
  assumes "stdinlogOpen s" and "stdinlogFile s \<notin> denied fs"
    and "bytesReceivedLimit s = 0 \<or> bytesReceived s + int (length d) \<le> bytesReceivedLimit s"
  shows "dataReceived now d s fs
           = (Returned, s\<lparr>bytesReceived := bytesReceived s + int (length d)\<rparr>,
              fs\<lparr>files := (files fs)(stdinlogFile s \<mapsto> contents fs (stdinlogFile s) @ d)\<rparr>,
              if terminalProtocol s then [Super_dataReceived d] else [])"
  using assms by (auto simp add: dataReceived_def open_ab_write_def contents_def)

lemma dataReceived_ttylog:
  assumes "\<not> stdinlogOpen s" and "ttylogEnabled s" and "ttylogOpen s"
    and "bytesReceivedLimit s = 0 \<or> bytesReceived s + int (length d) \<le> bytesReceivedLimit s"
  shows "dataReceived now d s fs
           = (Returned, s\<lparr>bytesReceived := bytesReceived s + int (length d)\<rparr>, fs,
              Ttylog_write (ttylogFile s) (length d) TYPE_INPUT now d
                # (if terminalProtocol s then [Super_dataReceived d] else []))"
  using assms by (auto simp add: dataReceived_def)

lemma feed_over_limit:
  assumes "bytesReceivedLimit s \<noteq> 0"
    and "bytesReceivedLimit s < bytesReceived s + int (length d)"
  shows "feed ((t, d) # rest) s fs
           = (Returned, s\<lparr>bytesReceived := bytesReceived s + total_len ((t, d) # rest)\<rparr>, fs,
              concat (replicate (Suc (length rest)) (Log_msg Limit_reached # eofReceived s)))"
  using assms
proof (induction rest arbitrary: s t d)
  case Nil
  then show ?case by (simp add: dataReceived_over_limit)
next
  case (Cons c rest)
  obtain t' d' where c: "c = (t', d')" by (cases c)
  let ?s1 = "s\<lparr>bytesReceived := bytesReceived s + int (length d)\<rparr>"
  have step: "dataReceived t d s fs = (Returned, ?s1, fs, Log_msg Limit_reached # eofReceived s)"
    using Cons.prems by (rule dataReceived_over_limit)
  have "bytesReceivedLimit ?s1 \<noteq> 0" using Cons.prems by simp
  moreover have "bytesReceivedLimit ?s1 < bytesReceived ?s1 + int (length d')"
    using Cons.prems by simp
  ultimately have ih: "feed ((t', d') # rest) ?s1 fs
           = (Returned, ?s1\<lparr>bytesReceived := bytesReceived ?s1 + total_len ((t', d') # rest)\<rparr>, fs,
              concat (replicate (Suc (length rest)) (Log_msg Limit_reached # eofReceived ?s1)))"
    by (rule Cons.IH)
  show ?case
    unfolding c feed.simps(2) [of t d] step
    by (simp only: ih prod.case outcome.case) (simp add: eofReceived_def add.assoc)
qed

lemma feed_stdin_accepted:
  assumes "stdinlogOpen s" and "stdinlogFile s \<notin> denied fs"
    and "bytesReceivedLimit s = 0 \<or> bytesReceived s + total_len cs \<le> bytesReceivedLimit s"
  shows "feed cs s fs
           = (Returned, s\<lparr>bytesReceived := bytesReceived s + total_len cs\<rparr>,
              (if cs = [] then fs
               else fs\<lparr>files := (files fs)
                      (stdinlogFile s \<mapsto> contents fs (stdinlogFile s) @ concat (map snd cs))\<rparr>),
              concat (map (\<lambda>c. if terminalProtocol s then [Super_dataReceived (snd c)] else []) cs))"
  using assms
proof (induction cs arbitrary: s fs)
  case Nil
  then show ?case by simp
next
  case (Cons c cs)
  obtain t d where c: "c = (t, d)" by (cases c)
  let ?s1 = "s\<lparr>bytesReceived := bytesReceived s + int (length d)\<rparr>"
  let ?fs1 = "fs\<lparr>files := (files fs)(stdinlogFile s \<mapsto> contents fs (stdinlogFile s) @ d)\<rparr>"
  have le: "bytesReceivedLimit s = 0 \<or> bytesReceived s + int (length d) \<le> bytesReceivedLimit s"
    using Cons.prems(3) total_len_nonneg [of cs] by (auto simp add: c)
  have step: "dataReceived t d s fs
           = (Returned, ?s1, ?fs1, if terminalProtocol s then [Super_dataReceived d] else [])"
    using Cons.prems(1,2) le by (rule dataReceived_stdin)
  have "stdinlogOpen ?s1" "stdinlogFile ?s1 \<notin> denied ?fs1"
    using Cons.prems by simp_all
  moreover have "bytesReceivedLimit ?s1 = 0 \<or> bytesReceived ?s1 + total_len cs \<le> bytesReceivedLimit ?s1"
    using Cons.prems(3) by (auto simp add: c)
  ultimately have ih: "feed cs ?s1 ?fs1
           = (Returned, ?s1\<lparr>bytesReceived := bytesReceived ?s1 + total_len cs\<rparr>,
              (if cs = [] then ?fs1
               else ?fs1\<lparr>files := (files ?fs1)
                      (stdinlogFile ?s1 \<mapsto> contents ?fs1 (stdinlogFile ?s1) @ concat (map snd cs))\<rparr>),
              concat (map (\<lambda>c. if terminalProtocol ?s1 then [Super_dataReceived (snd c)] else []) cs))"
    by (rule Cons.IH)
  show ?case
    unfolding c feed.simps(2) [of t d] step
    by (simp only: ih prod.case outcome.case) (simp add: contents_def add.assoc)
qed

lemma feed_append:
  "feed (xs @ ys) s fs
     = (case feed xs s fs of
          (Raised e, s1, fs1, es) \<Rightarrow> (Raised e, s1, fs1, es)
        | (Returned, s1, fs1, es) \<Rightarrow>
            (case feed ys s1 fs1 of (out, s2, fs2, es') \<Rightarrow> (out, s2, fs2, es @ es')))"
proof (induction xs arbitrary: s fs)
  case Nil
  then show ?case by (simp split: prod.splits)
next
  case (Cons x xs)
  obtain t d where x: "x = (t, d)" by (cases x)
  show ?case
    by (simp add: x Cons.IH split: prod.splits outcome.splits)
qed

lemma count_list_concat_replicate:
  "count_list (concat (replicate n xs)) x = n * count_list xs x"
  by (induction n) simp_all

lemma input_records_concat_replicate_limit:
  "input_records (concat (replicate n (Log_msg Limit_reached # eofReceived s))) = []"
  by (cases "terminalProtocol s"; induction n; simp add: eofReceived_def)

lemma feed_ttylog_accepted:
  assumes "\<not> stdinlogOpen s" and "ttylogEnabled s" and "ttylogOpen s"
    and "bytesReceivedLimit s = 0 \<or> bytesReceived s + total_len cs \<le> bytesReceivedLimit s"
  shows "feed cs s fs
           = (Returned, s\<lparr>bytesReceived := bytesReceived s + total_len cs\<rparr>, fs,
              concat (map (\<lambda>c. Ttylog_write (ttylogFile s) (length (snd c)) TYPE_INPUT (fst c) (snd c)
                             # (if terminalProtocol s then [Super_dataReceived (snd c)] else [])) cs))"
  using assms
proof (induction cs arbitrary: s)
  case Nil
  then show ?case by simp
next
  case (Cons c cs)
  obtain t d where c: "c = (t, d)" by (cases c)
  let ?s1 = "s\<lparr>bytesReceived := bytesReceived s + int (length d)\<rparr>"
  have le: "bytesReceivedLimit s = 0 \<or> bytesReceived s + int (length d) \<le> bytesReceivedLimit s"
    using Cons.prems(4) total_len_nonneg [of cs] by (auto simp add: c)
  have step: "dataReceived t d s fs
           = (Returned, ?s1, fs,
              Ttylog_write (ttylogFile s) (length d) TYPE_INPUT t d
                # (if terminalProtocol s then [Super_dataReceived d] else []))"
    using Cons.prems(1,2,3) le by (rule dataReceived_ttylog)
  have "\<not> stdinlogOpen ?s1" "ttylogEnabled ?s1" "ttylogOpen ?s1"
    using Cons.prems by simp_all
  moreover have "bytesReceivedLimit ?s1 = 0 \<or> bytesReceived ?s1 + total_len cs \<le> bytesReceivedLimit ?s1"
    using Cons.prems(4) by (auto simp add: c)
  ultimately have ih: "feed cs ?s1 fs
           = (Returned, ?s1\<lparr>bytesReceived := bytesReceived ?s1 + total_len cs\<rparr>, fs,
              concat (map (\<lambda>c. Ttylog_write (ttylogFile ?s1) (length (snd c)) TYPE_INPUT (fst c) (snd c)
                             # (if terminalProtocol ?s1 then [Super_dataReceived (snd c)] else [])) cs))"
    by (rule Cons.IH)
  show ?case
    unfolding c feed.simps(2) [of t d] step
    by (simp only: ih prod.case outcome.case) (simp add: add.assoc)
qed

lemma input_records_accepted:
  "input_records
     (concat (map (\<lambda>c. Ttylog_write f (length (snd c)) TYPE_INPUT (fst c) (snd c)
                          # (if tp then [Super_dataReceived (snd c)] else [])) cs))
   = map (\<lambda>c. (f, length (snd c), fst c, snd c)) cs"
  by (cases tp; induction cs; simp)

text \<open>
  Claim C6. In a session whose transcript is enabled and open and whose stdin capture is
  off, as long as the limit is not passed (no limit, or the counter with all the chunks
  still within it), every call of \<^verbatim>\<open>dataReceived\<close> returns and writes one INPUT
  record to the transcript of the session, with the chunk as its payload and the length of
  the chunk as its length; so the INPUT records are the chunks, one for one and in order of
  arrival, and their payloads concatenated are the octets received.
\<close>

theorem transcript_input_records:
  assumes "ttylogEnabled s" and "ttylogOpen s" and "\<not> stdinlogOpen s"
    and "bytesReceivedLimit s = 0 \<or> bytesReceived s + total_len cs \<le> bytesReceivedLimit s"
  shows "fst (feed cs s fs) = Returned
       \<and> input_records (snd (snd (snd (feed cs s fs))))
           = map (\<lambda>c. (ttylogFile s, length (snd c), fst c, snd c)) cs
       \<and> concat (map (\<lambda>r. snd (snd (snd r))) (input_records (snd (snd (snd (feed cs s fs))))))
           = concat (map snd cs)"
proof -
  have "feed cs s fs
           = (Returned, s\<lparr>bytesReceived := bytesReceived s + total_len cs\<rparr>, fs,
              concat (map (\<lambda>c. Ttylog_write (ttylogFile s) (length (snd c)) TYPE_INPUT (fst c) (snd c)
                             # (if terminalProtocol s then [Super_dataReceived (snd c)] else [])) cs))"
    using assms(3,1,2,4) by (rule feed_ttylog_accepted)
  then show ?thesis
    by (simp add: input_records_accepted comp_def)
qed

theorem transcript_input_records_witness:
  "ttylogEnabled interactive_session \<and> ttylogOpen interactive_session
   \<and> \<not> stdinlogOpen interactive_session
   \<and> bytesReceived interactive_session + total_len [(5, [108, 115]), (7, [10])]
       \<le> bytesReceivedLimit interactive_session
   \<and> input_records (snd (snd (snd (feed [(5, [108, 115]), (7, [10])] interactive_session empty_fs))))
       = [(''/log/tty/d-t-0i.log'', 2, 5, [108, 115]), (''/log/tty/d-t-0i.log'', 1, 7, [10])]
   \<and> concat (map (\<lambda>r. snd (snd (snd r)))
         (input_records (snd (snd (snd (feed [(5, [108, 115]), (7, [10])] interactive_session empty_fs))))))
       = [108, 115, 10]"
proof -
  have a: "ttylogEnabled interactive_session" "ttylogOpen interactive_session"
    "\<not> stdinlogOpen interactive_session"
    by (simp_all add: interactive_session_def)
  have b: "bytesReceivedLimit interactive_session = 0
    \<or> bytesReceived interactive_session + total_len [(5, [108, 115]), (7, [10])]
       \<le> bytesReceivedLimit interactive_session"
    by (simp add: interactive_session_def)
  from transcript_input_records [OF a b, of empty_fs] a b show ?thesis
    by (simp add: interactive_session_def)
qed

subsection \<open>The limit and the stdin capture\<close>

text \<open>
  Claim C1, as the code has it. The limit is tested before the chunk is appended, so the
  chunk that passes the limit is not written. In a session with the stdin capture open, a
  writable capture file and a positive limit, let the first \<open>k\<close> chunks be within the
  limit and the next one, if there is one, pass it. Then every call returns, and the capture
  file holds what it held before followed by the first \<open>k\<close> chunks, in order, and
  nothing of the chunk that passed the limit or of any later one; with \<open>k = 0\<close> the
  file is not touched.
\<close>

theorem stdin_capture_before_trip:
  assumes "stdinlogOpen s" and "stdinlogFile s \<notin> denied fs" and "0 < bytesReceivedLimit s"
    and "k \<le> length cs"
    and "bytesReceived s + total_len (take k cs) \<le> bytesReceivedLimit s"
    and "k < length cs \<longrightarrow> bytesReceivedLimit s < bytesReceived s + total_len (take (Suc k) cs)"
  shows "fst (feed cs s fs) = Returned
       \<and> files (fst (snd (snd (feed cs s fs)))) (stdinlogFile s)
           = (if k = 0 then files fs (stdinlogFile s)
              else Some (contents fs (stdinlogFile s) @ concat (map snd (take k cs))))"
proof -
  let ?pre = "take k cs"
  let ?s1 = "s\<lparr>bytesReceived := bytesReceived s + total_len ?pre\<rparr>"
  let ?fs1 = "if ?pre = [] then fs
               else fs\<lparr>files := (files fs)
                      (stdinlogFile s \<mapsto> contents fs (stdinlogFile s) @ concat (map snd ?pre))\<rparr>"
  have pre: "feed ?pre s fs
           = (Returned, ?s1, ?fs1,
              concat (map (\<lambda>c. if terminalProtocol s then [Super_dataReceived (snd c)] else []) ?pre))"
    using assms(1,2,5) by (intro feed_stdin_accepted) simp_all
  have k0: "(?pre = []) = (k = 0 \<or> cs = [])" by simp
  have file1: "files ?fs1 (stdinlogFile s)
           = (if k = 0 then files fs (stdinlogFile s)
              else Some (contents fs (stdinlogFile s) @ concat (map snd ?pre)))"
    using assms(4) by (cases cs) auto
  have split: "cs = ?pre @ drop k cs" by simp
  show ?thesis
  proof (cases "k < length cs")
    case False
    then have "?pre = cs" using assms(4) by simp
    then have "feed cs s fs = feed ?pre s fs" by simp
    then show ?thesis using pre file1 by simp
  next
    case True
    obtain t d where nth: "cs ! k = (t, d)" by (cases "cs ! k")
    have dr: "drop k cs = (t, d) # drop (Suc k) cs"
      using True nth by (simp add: Cons_nth_drop_Suc [symmetric])
    have tk: "take (Suc k) cs = ?pre @ [(t, d)]"
      using True nth by (simp add: take_Suc_conv_app_nth)
    have over: "bytesReceivedLimit ?s1 < bytesReceived ?s1 + int (length d)"
      using assms(6) True by (simp add: tk)
    have lim: "bytesReceivedLimit ?s1 \<noteq> 0" using assms(3) by simp
    have post: "feed ((t, d) # drop (Suc k) cs) ?s1 ?fs1
           = (Returned, ?s1\<lparr>bytesReceived := bytesReceived ?s1 + total_len ((t, d) # drop (Suc k) cs)\<rparr>,
              ?fs1,
              concat (replicate (Suc (length (drop (Suc k) cs))) (Log_msg Limit_reached # eofReceived ?s1)))"
      using lim over by (rule feed_over_limit)
    have "feed cs s fs = feed (?pre @ (t, d) # drop (Suc k) cs) s fs"
      using split dr by simp
    also have "\<dots> = (Returned,
              ?s1\<lparr>bytesReceived := bytesReceived ?s1 + total_len ((t, d) # drop (Suc k) cs)\<rparr>, ?fs1,
              concat (map (\<lambda>c. if terminalProtocol s then [Super_dataReceived (snd c)] else []) ?pre)
              @ concat (replicate (Suc (length (drop (Suc k) cs))) (Log_msg Limit_reached # eofReceived ?s1)))"
      unfolding feed_append pre by (simp only: prod.case outcome.case post)
    finally show ?thesis using file1 by simp
  qed
qed

theorem stdin_capture_before_trip_witness:
  "stdinlogOpen exec_session \<and> stdinlogFile exec_session \<notin> denied empty_fs
   \<and> 0 < bytesReceivedLimit exec_session
   \<and> bytesReceived exec_session + total_len (take 1 [(0, [1, 2, 3]), (1, [4, 5, 6])])
       \<le> bytesReceivedLimit exec_session
   \<and> bytesReceivedLimit exec_session
       < bytesReceived exec_session + total_len (take 2 [(0, [1, 2, 3]), (1, [4, 5, 6])])
   \<and> files (fst (snd (snd (feed [(0, [1, 2, 3]), (1, [4, 5, 6])] exec_session empty_fs))))
        ''/dl/d-t-0-stdin.log'' = Some [1, 2, 3]"
proof -
  have a: "stdinlogOpen exec_session" "stdinlogFile exec_session \<notin> denied empty_fs"
    "0 < bytesReceivedLimit exec_session"
    by (simp_all add: exec_session_def empty_fs_def)
  have k: "(1::nat) \<le> length [(0::int, [1, 2, 3::byte]), (1, [4, 5, 6])]" by simp
  have b: "bytesReceived exec_session + total_len (take 1 [(0, [1, 2, 3]), (1, [4, 5, 6])])
       \<le> bytesReceivedLimit exec_session"
    by (simp add: exec_session_def)
  have c: "1 < length [(0::int, [1, 2, 3::byte]), (1, [4, 5, 6])] \<longrightarrow> bytesReceivedLimit exec_session
       < bytesReceived exec_session + total_len (take (Suc 1) [(0, [1, 2, 3]), (1, [4, 5, 6])])"
    by (simp add: exec_session_def)
  from stdin_capture_before_trip [OF a k b c] a b c show ?thesis
    by (simp add: exec_session_def empty_fs_def contents_def)
qed

text \<open>
  The claim as it is written fails: with a limit of 4, chunks of three and three octets
  leave the first three octets in the capture file, not all six.
\<close>

theorem append_before_check_counterexample:
  "files (fst (snd (snd (feed [(0, [1, 2, 3]), (1, [4, 5, 6])] exec_session empty_fs))))
     (stdinlogFile exec_session) = Some [1, 2, 3]
   \<and> files (fst (snd (snd (feed [(0, [1, 2, 3]), (1, [4, 5, 6])] exec_session empty_fs))))
     (stdinlogFile exec_session) \<noteq> Some ([1, 2, 3] @ [4, 5, 6])"
  by (simp add: dataReceived_def exec_session_def eofReceived_def open_ab_write_def empty_fs_def)

text \<open>
  Claim C2, as the code has it. There is no flag that remembers the limit; what makes the
  limit final is that the counter only grows. From the call that passes a positive limit
  on, every call returns after logging the limit and forwarding the end of input to the
  terminal protocol, when there is one: one end of input for each such call, not one for
  the session. None of these calls changes a file or writes an INPUT record.
\<close>

theorem eof_on_every_call_over_limit:
  assumes "0 < bytesReceivedLimit s"
    and "bytesReceivedLimit s < bytesReceived s + int (length d)"
  shows "feed ((t, d) # rest) s fs
           = (Returned, s\<lparr>bytesReceived := bytesReceived s + total_len ((t, d) # rest)\<rparr>, fs,
              concat (replicate (Suc (length rest)) (Log_msg Limit_reached # eofReceived s)))
       \<and> count_list (snd (snd (snd (feed ((t, d) # rest) s fs)))) Terminal_eofReceived
           = (if terminalProtocol s then Suc (length rest) else 0)
       \<and> input_records (snd (snd (snd (feed ((t, d) # rest) s fs)))) = []"
proof -
  have "bytesReceivedLimit s \<noteq> 0" using assms(1) by simp
  then have "feed ((t, d) # rest) s fs
           = (Returned, s\<lparr>bytesReceived := bytesReceived s + total_len ((t, d) # rest)\<rparr>, fs,
              concat (replicate (Suc (length rest)) (Log_msg Limit_reached # eofReceived s)))"
    using assms(2) by (rule feed_over_limit)
  then show ?thesis
    by (simp only: snd_conv count_list_concat_replicate input_records_concat_replicate_limit)
       (simp add: eofReceived_def)
qed

theorem eof_on_every_call_over_limit_witness:
  "0 < bytesReceivedLimit exec_session
   \<and> bytesReceivedLimit exec_session < bytesReceived exec_session + int (length [1, 2, 3, 4, 5 :: byte])
   \<and> feed [(0, [1, 2, 3, 4, 5]), (1, [6])] exec_session empty_fs
       = (Returned, exec_session\<lparr>bytesReceived := 6\<rparr>, empty_fs,
          [Log_msg Limit_reached, Terminal_eofReceived, Log_msg Limit_reached, Terminal_eofReceived])"
proof -
  have a: "0 < bytesReceivedLimit exec_session"
    "bytesReceivedLimit exec_session < bytesReceived exec_session + int (length [1, 2, 3, 4, 5 :: byte])"
    by (simp_all add: exec_session_def)
  from eof_on_every_call_over_limit [OF a, of 0 "[(1, [6])]" empty_fs] a show ?thesis
    by (simp add: exec_session_def eofReceived_def)
qed

text \<open>
  The claim as it is written fails: two chunks after the limit of 4 was passed by the first
  of them forward the end of input twice.
\<close>

theorem forced_eof_once_counterexample:
  "count_list (snd (snd (snd (feed [(0, [1, 2, 3, 4, 5]), (1, [6])] exec_session empty_fs))))
     Terminal_eofReceived = 2"
  by (simp add: dataReceived_def exec_session_def eofReceived_def)

subsection \<open>Teardown\<close>

lemma example_digest_123: "example_digest [1, 2, 3] = ''h010203''"
  by (simp add: example_digest_def hex_byte_def hexdigit_def drop_bit_eq_div)

lemma example_digest_Nil: "example_digest [] = ''h''"
  by (simp add: example_digest_def)

lemma finalize_stdin_closed:
  "\<not> stdinlogOpen s \<Longrightarrow> finalize_stdin sha s fs = (s, fs, [])"
  by (simp add: finalize_stdin_def)

lemma finalize_stdin_session:
  "fst (finalize_stdin sha s fs) = s\<lparr>stdinlogOpen := False\<rparr>"
  by (auto simp add: finalize_stdin_def Let_def split: sum.splits)

lemma close_ttylog_closed:
  "\<not> (ttylogEnabled s \<and> ttylogOpen s) \<Longrightarrow> close_ttylog up t1 t2 s = (Returned, s, [])"
  by (auto simp add: close_ttylog_def)

lemma close_ttylog_session:
  "fst (snd (close_ttylog up t1 t2 s))
     = (if ttylogEnabled s \<and> ttylogOpen s then s\<lparr>ttylogOpen := False\<rparr> else s)"
  by (auto simp add: close_ttylog_def Let_def split: option.splits)

lemma connectionLost_session:
  assumes "connectionLost sha up r t1 t2 s fs = (Returned, s1, fs1, es)"
  shows "s1 = (if ttylogEnabled s \<and> ttylogOpen s
               then s\<lparr>stdinlogOpen := False, redirFiles := [], ttylogOpen := False,
                       terminalProtocol := False\<rparr>
               else s\<lparr>stdinlogOpen := False, redirFiles := [], terminalProtocol := False\<rparr>)"
proof -
  obtain sa fsa esa where a: "finalize_stdin sha s fs = (sa, fsa, esa)"
    by (cases "finalize_stdin sha s fs")
  have sa: "sa = s\<lparr>stdinlogOpen := False\<rparr>"
    using finalize_stdin_session [of sha s fs] a by simp
  obtain fsb esb where b: "drain_redir sha (downloadPath sa) (redirFiles sa) fsa = (fsb, esb)"
    by (cases "drain_redir sha (downloadPath sa) (redirFiles sa) fsa")
  let ?sb = "sa\<lparr>redirFiles := []\<rparr>"
  obtain oc sc esc where c: "close_ttylog up t1 t2 ?sb = (oc, sc, esc)"
    by (cases "close_ttylog up t1 t2 ?sb")
  have sc: "sc = (if ttylogEnabled ?sb \<and> ttylogOpen ?sb then ?sb\<lparr>ttylogOpen := False\<rparr> else ?sb)"
    using close_ttylog_session [of up t1 t2 ?sb] c by simp
  have sb_eq: "redirFiles sa = [] \<Longrightarrow> ?sb = sa" by simp
  have c': "redirFiles sa = [] \<Longrightarrow> close_ttylog up t1 t2 sa = (oc, sc, esc)"
    using c sb_eq by simp
  from assms have "oc = Returned \<and> s1 = sc\<lparr>terminalProtocol := False\<rparr>"
    by (cases oc; cases "redirFiles sa = []") (simp_all add: connectionLost_def a b c c')
  then show ?thesis
    by (simp add: sc sa)
qed

text \<open>
  Claim C3. After a call of \<^verbatim>\<open>connectionLost\<close> that returned, a second call, with
  whatever digest, uploader, reason and clock, returns as well; it leaves the files and the
  session as the first call left them and does nothing but forward the event to the parent
  class: no capture is finalized, no transcript closed, nothing uploaded and nothing logged.
  The reason is the state the first call leaves: \<open>stdinlogOpen\<close> is cleared,
  \<open>redirFiles\<close> is empty, and the transcript is not both enabled and open.
\<close>

theorem connectionLost_twice:
  assumes "connectionLost sha up r t1 t2 s fs = (Returned, s1, fs1, es)"
  shows "connectionLost sha' up' r' t1' t2' s1 fs1 = (Returned, s1, fs1, [Super_connectionLost r'])
       \<and> \<not> stdinlogOpen s1 \<and> redirFiles s1 = [] \<and> \<not> (ttylogEnabled s1 \<and> ttylogOpen s1)"
proof -
  note s1 = connectionLost_session [OF assms]
  have flags: "\<not> stdinlogOpen s1" "redirFiles s1 = []" "\<not> (ttylogEnabled s1 \<and> ttylogOpen s1)"
    "\<not> terminalProtocol s1"
    by (simp_all add: s1)
  have "s1\<lparr>terminalProtocol := False\<rparr> = s1"
    using flags(4) by simp
  then have "connectionLost sha' up' r' t1' t2' s1 fs1 = (Returned, s1, fs1, [Super_connectionLost r'])"
    by (simp add: connectionLost_def finalize_stdin_closed [OF flags(1)] flags(2)
        close_ttylog_closed [OF flags(3)])
  then show ?thesis using flags by simp
qed

theorem connectionLost_twice_witness:
  "fst (connectionLost example_digest upload_ok ''closed'' 9 9 exec_session captured_fs) = Returned
   \<and> connectionLost example_digest upload_ok ''again'' 10 10
        (fst (snd (connectionLost example_digest upload_ok ''closed'' 9 9 exec_session captured_fs)))
        (fst (snd (snd (connectionLost example_digest upload_ok ''closed'' 9 9 exec_session captured_fs))))
      = (Returned,
         fst (snd (connectionLost example_digest upload_ok ''closed'' 9 9 exec_session captured_fs)),
         fst (snd (snd (connectionLost example_digest upload_ok ''closed'' 9 9 exec_session captured_fs))),
         [Super_connectionLost ''again''])"
proof -
  obtain out s1 fs1 es
    where r: "connectionLost example_digest upload_ok ''closed'' 9 9 exec_session captured_fs
                = (out, s1, fs1, es)"
    by (cases "connectionLost example_digest upload_ok ''closed'' 9 9 exec_session captured_fs")
  have "fst (connectionLost example_digest upload_ok ''closed'' 9 9 exec_session captured_fs) = Returned"
    by (simp add: connectionLost_def finalize_stdin_def open_rb_read_def exec_session_def
        captured_fs_def close_ttylog_def Let_def split: prod.splits)
  then have out: "out = Returned" using r by simp
  from connectionLost_twice [OF r [unfolded out], of example_digest upload_ok "''again''" 10 10]
  show ?thesis using r out by simp
qed

subsection \<open>Duplicates\<close>

text \<open>
  Claim C4, as the code has it. Let the captured file be readable with content \<open>c\<close>.
  Finalizing it as the stdin capture, and as a redirect file when \<open>c\<close> is not empty,
  goes one of two ways, and logs the \<^verbatim>\<open>cowrie.session.file_download\<close> event,
  with the digest, the label and the path under the digest, on both: the event is logged
  after the \<^verbatim>\<open>with\<close> block. When the file named by the digest of \<open>c\<close> exists
  in the download directory, the captured file is removed, the file already stored is left
  as it is (unless it is the captured file itself), and the notice of the duplicate with
  the digest is logged before the download event. When it does not exist, the captured file is renamed to it, so that the path under
  the digest holds \<open>c\<close> and the captured path holds nothing, and the download event is
  all that is logged.
\<close>

theorem download_logged_moved_or_duplicate:
  assumes "open_rb_read fs tmp = Inr c"
  shows "(stdinlogOpen s \<and> stdinlogFile s = tmp \<and> downloadPath s = dl \<longrightarrow>
            finalize_stdin sha s fs
              = (s\<lparr>stdinlogOpen := False\<rparr>,
                 (if path_exists fs (path_join dl (sha c)) then remove fs tmp
                  else rename fs tmp (path_join dl (sha c))),
                 (if path_exists fs (path_join dl (sha c))
                  then [Log_msg (Not_storing_duplicate (sha c))] else [])
                 @ [Log_msg (File_download Stdin ''stdin'' (path_join dl (sha c)) (sha c))]))
       \<and> (c \<noteq> [] \<longrightarrow>
            finalize_redir sha dl (tmp, u) fs
              = ((if path_exists fs (path_join dl (sha c)) then remove fs tmp
                  else rename fs tmp (path_join dl (sha c))),
                 (if path_exists fs (path_join dl (sha c))
                  then [Log_msg (Not_storing_duplicate (sha c))] else [])
                 @ [Log_msg (File_download Redir (redir_url (tmp, u)) (path_join dl (sha c))
                              (sha c))]))
       \<and> files (remove fs tmp) tmp = None
       \<and> (path_exists fs (path_join dl (sha c)) \<longrightarrow>
            files (remove fs tmp) (path_join dl (sha c)) = files fs (path_join dl (sha c))
              \<or> path_join dl (sha c) = tmp)
       \<and> (\<not> path_exists fs (path_join dl (sha c)) \<longrightarrow>
            files (rename fs tmp (path_join dl (sha c))) (path_join dl (sha c)) = Some c
            \<and> files (rename fs tmp (path_join dl (sha c))) tmp = None)"
proof -
  have f: "files fs tmp = Some c"
    using assms by (auto simp add: open_rb_read_def split: if_splits option.splits)
  have stdin: "stdinlogOpen s \<and> stdinlogFile s = tmp \<and> downloadPath s = dl \<longrightarrow>
            finalize_stdin sha s fs
              = (s\<lparr>stdinlogOpen := False\<rparr>,
                 (if path_exists fs (path_join dl (sha c)) then remove fs tmp
                  else rename fs tmp (path_join dl (sha c))),
                 (if path_exists fs (path_join dl (sha c))
                  then [Log_msg (Not_storing_duplicate (sha c))] else [])
                 @ [Log_msg (File_download Stdin ''stdin'' (path_join dl (sha c)) (sha c))])"
    using assms by (simp add: finalize_stdin_def Let_def)
  have redir: "c \<noteq> [] \<longrightarrow>
            finalize_redir sha dl (tmp, u) fs
              = ((if path_exists fs (path_join dl (sha c)) then remove fs tmp
                  else rename fs tmp (path_join dl (sha c))),
                 (if path_exists fs (path_join dl (sha c))
                  then [Log_msg (Not_storing_duplicate (sha c))] else [])
                 @ [Log_msg (File_download Redir (redir_url (tmp, u)) (path_join dl (sha c))
                              (sha c))])"
    using assms f by (simp add: finalize_redir_def Let_def path_exists_def getsize_def)
  have rm: "files (remove fs tmp) tmp = None"
    by (simp add: remove_def)
  have keep: "path_exists fs (path_join dl (sha c)) \<longrightarrow>
            files (remove fs tmp) (path_join dl (sha c)) = files fs (path_join dl (sha c))
              \<or> path_join dl (sha c) = tmp"
    by (simp add: remove_def)
  have mv: "\<not> path_exists fs (path_join dl (sha c)) \<longrightarrow>
            files (rename fs tmp (path_join dl (sha c))) (path_join dl (sha c)) = Some c
            \<and> files (rename fs tmp (path_join dl (sha c))) tmp = None"
    using f by (auto simp add: rename_def path_exists_def)
  from stdin redir rm keep mv show ?thesis by (intro conjI)
qed

theorem download_logged_moved_or_duplicate_witness:
  "open_rb_read duplicate_fs ''/dl/d-t-0-stdin.log'' = Inr [1, 2, 3]
   \<and> path_exists duplicate_fs (path_join ''/dl'' (example_digest [1, 2, 3]))
   \<and> finalize_stdin example_digest exec_session duplicate_fs
       = (exec_session\<lparr>stdinlogOpen := False\<rparr>, remove duplicate_fs ''/dl/d-t-0-stdin.log'',
          [Log_msg (Not_storing_duplicate ''h010203''),
           Log_msg (File_download Stdin ''stdin'' ''/dl/h010203'' ''h010203'')])
   \<and> finalize_redir example_digest ''/dl'' (''/dl/d-t-0-stdin.log'', Some ''out'') duplicate_fs
       = (remove duplicate_fs ''/dl/d-t-0-stdin.log'',
          [Log_msg (Not_storing_duplicate ''h010203''),
           Log_msg (File_download Redir ''out'' ''/dl/h010203'' ''h010203'')])
   \<and> open_rb_read captured_fs ''/dl/d-t-0-stdin.log'' = Inr [1, 2, 3]
   \<and> \<not> path_exists captured_fs (path_join ''/dl'' (example_digest [1, 2, 3]))
   \<and> finalize_stdin example_digest exec_session captured_fs
       = (exec_session\<lparr>stdinlogOpen := False\<rparr>,
          rename captured_fs ''/dl/d-t-0-stdin.log'' ''/dl/h010203'',
          [Log_msg (File_download Stdin ''stdin'' ''/dl/h010203'' ''h010203'')])
   \<and> finalize_redir example_digest ''/dl'' (''/dl/d-t-0-stdin.log'', Some ''out'') captured_fs
       = (rename captured_fs ''/dl/d-t-0-stdin.log'' ''/dl/h010203'',
          [Log_msg (File_download Redir ''out'' ''/dl/h010203'' ''h010203'')])
   \<and> files (rename captured_fs ''/dl/d-t-0-stdin.log'' ''/dl/h010203'') ''/dl/h010203''
       = Some [1, 2, 3]
   \<and> files (rename captured_fs ''/dl/d-t-0-stdin.log'' ''/dl/h010203'') ''/dl/d-t-0-stdin.log''
       = None"
proof -
  have a: "open_rb_read duplicate_fs ''/dl/d-t-0-stdin.log'' = Inr [1, 2, 3]"
    by (simp add: open_rb_read_def duplicate_fs_def)
  have b: "path_exists duplicate_fs (path_join ''/dl'' (example_digest [1, 2, 3]))"
    by (simp add: path_exists_def duplicate_fs_def path_join_def example_digest_123)
  have a': "open_rb_read captured_fs ''/dl/d-t-0-stdin.log'' = Inr [1, 2, 3]"
    by (simp add: open_rb_read_def captured_fs_def)
  have b': "\<not> path_exists captured_fs (path_join ''/dl'' (example_digest [1, 2, 3]))"
    by (simp add: path_exists_def captured_fs_def path_join_def example_digest_123)
  have e: "stdinlogOpen exec_session \<and> stdinlogFile exec_session = ''/dl/d-t-0-stdin.log''
           \<and> downloadPath exec_session = ''/dl''"
    by (simp add: exec_session_def)
  have j: "path_join ''/dl'' ''h010203'' = ''/dl/h010203''"
    by (simp add: path_join_def)
  have u: "redir_url (''/dl/d-t-0-stdin.log'', Some ''out'') = ''out''"
    by (simp add: redir_url_def)
  note dup = download_logged_moved_or_duplicate
         [where sha = example_digest and s = exec_session and u = "Some ''out''"
            and dl = "''/dl''", OF a]
  note new = download_logged_moved_or_duplicate
         [where sha = example_digest and s = exec_session and u = "Some ''out''"
            and dl = "''/dl''", OF a']
  from dup new a b a' b' e show ?thesis
    by (simp add: example_digest_123 j u)
qed

text \<open>
  The claim as it is written fails: the digest is already stored, nothing is moved, and the
  download event is logged all the same.
\<close>

theorem download_only_when_moved_counterexample:
  "path_exists duplicate_fs ''/dl/h010203''
   \<and> snd (snd (finalize_stdin example_digest exec_session duplicate_fs))
       = [Log_msg (Not_storing_duplicate ''h010203''),
          Log_msg (File_download Stdin ''stdin'' ''/dl/h010203'' ''h010203'')]"
  by (simp add: finalize_stdin_def open_rb_read_def exec_session_def duplicate_fs_def
      path_exists_def path_join_def example_digest_123 Let_def)

subsection \<open>Empty captures\<close>

text \<open>
  The loop over the redirect files removes a file of length zero and logs nothing, and it
  passes over a path that names no file. The block for the stdin capture has no such test.
\<close>

lemma finalize_redir_empty:
  assumes "files fs rf = Some []"
  shows "finalize_redir sha dl (rf, u) fs = (remove fs rf, [])"
  using assms by (simp add: finalize_redir_def path_exists_def getsize_def)

lemma finalize_redir_missing:
  assumes "files fs rf = None"
  shows "finalize_redir sha dl (rf, u) fs = (fs, [])"
  using assms by (simp add: finalize_redir_def path_exists_def)

lemma empty_chunk_creates_capture:
  "dataReceived 0 [] exec_session empty_fs
     = (Returned, exec_session,
        \<lparr>files = [''/dl/d-t-0-stdin.log'' \<mapsto> []], denied = {}\<rparr>,
        [Super_dataReceived []])"
  by (simp add: dataReceived_def exec_session_def open_ab_write_def empty_fs_def)

text \<open>
  Claim C5 fails on the stdin capture. An exec session that receives one empty chunk has
  an empty capture file (\<^verbatim>\<open>open(..., 'ab')\<close> creates it). At teardown, for every
  digest function, the download event is logged for it, and unless the digest of the empty
  content is the very name of the capture, the empty file is stored under that digest.
\<close>

theorem empty_stdin_capture_stored:
  "files (fst (snd (snd (dataReceived 0 [] exec_session empty_fs)))) (stdinlogFile exec_session)
     = Some []
   \<and> Log_msg (File_download Stdin ''stdin'' (path_join ''/dl'' (sha [])) (sha []))
       \<in> set (snd (snd (snd (connectionLost sha up r ta tb
                  (fst (snd (dataReceived 0 [] exec_session empty_fs)))
                  (fst (snd (snd (dataReceived 0 [] exec_session empty_fs))))))))
   \<and> (path_join ''/dl'' (sha []) \<noteq> stdinlogFile exec_session \<longrightarrow>
        files (fst (snd (snd (connectionLost sha up r ta tb
                  (fst (snd (dataReceived 0 [] exec_session empty_fs)))
                  (fst (snd (snd (dataReceived 0 [] exec_session empty_fs))))))))
          (path_join ''/dl'' (sha [])) = Some [])"
proof -
  let ?fs = "\<lparr>files = [''/dl/d-t-0-stdin.log'' \<mapsto> []], denied = {}\<rparr>"
  have fin: "finalize_stdin sha exec_session ?fs
      = (exec_session\<lparr>stdinlogOpen := False\<rparr>,
         (if path_exists ?fs (path_join ''/dl'' (sha []))
          then remove ?fs ''/dl/d-t-0-stdin.log''
          else rename ?fs ''/dl/d-t-0-stdin.log'' (path_join ''/dl'' (sha []))),
         (if path_exists ?fs (path_join ''/dl'' (sha []))
          then [Log_msg (Not_storing_duplicate (sha []))] else [])
         @ [Log_msg (File_download Stdin ''stdin'' (path_join ''/dl'' (sha [])) (sha []))])"
    by (simp add: finalize_stdin_def open_rb_read_def exec_session_def Let_def)
  have rf: "redirFiles (exec_session\<lparr>stdinlogOpen := False\<rparr>) = []"
    by (simp add: exec_session_def)
  have cl: "close_ttylog up ta tb (exec_session\<lparr>stdinlogOpen := False\<rparr>)
      = (Returned, exec_session\<lparr>stdinlogOpen := False, ttylogOpen := False\<rparr>,
         [Log_msg (Log_closed ''/log/tty/d-t-0e.log'' 0 ta), Ttylog_close ''/log/tty/d-t-0e.log'' tb])"
    by (simp add: close_ttylog_def exec_session_def)
  have ex: "path_join ''/dl'' (sha []) \<noteq> ''/dl/d-t-0-stdin.log''
            \<Longrightarrow> \<not> path_exists ?fs (path_join ''/dl'' (sha []))"
    by (simp add: path_exists_def)
  have sf: "stdinlogFile exec_session = ''/dl/d-t-0-stdin.log''"
    by (simp add: exec_session_def)
  show ?thesis
    unfolding empty_chunk_creates_capture sf
    by (auto simp add: connectionLost_def fin rf cl ex rename_def)
qed

theorem empty_stdin_capture_stored_witness:
  "path_join ''/dl'' (example_digest []) \<noteq> stdinlogFile exec_session
   \<and> files (fst (snd (snd (connectionLost example_digest upload_ok ''closed'' 9 9
                  (fst (snd (dataReceived 0 [] exec_session empty_fs)))
                  (fst (snd (snd (dataReceived 0 [] exec_session empty_fs))))))))
          ''/dl/h'' = Some []
   \<and> Log_msg (File_download Stdin ''stdin'' ''/dl/h'' ''h'')
       \<in> set (snd (snd (snd (connectionLost example_digest upload_ok ''closed'' 9 9
                  (fst (snd (dataReceived 0 [] exec_session empty_fs)))
                  (fst (snd (snd (dataReceived 0 [] exec_session empty_fs))))))))"
proof -
  have a: "path_join ''/dl'' ''h'' = ''/dl/h''"
    by (simp add: path_join_def)
  have b: "stdinlogFile exec_session = ''/dl/d-t-0-stdin.log''"
    by (simp add: exec_session_def)
  from empty_stdin_capture_stored [of example_digest upload_ok "''closed''" 9 9]
  show ?thesis
    by (simp add: example_digest_Nil a b)
qed

subsection \<open>Upload\<close>

text \<open>
  Claim C8, as the code has it. In a teardown with the transcript enabled and open and
  object storage enabled, let the upload raise \<open>e\<close>. The handler names
  \<^verbatim>\<open>ResponseError\<close>: when \<open>e\<close> is a \<^verbatim>\<open>ResponseError\<close> it is swallowed,
  \<^verbatim>\<open>connectionLost\<close> returns and has forwarded the event to the parent class; an
  exception of any other class leaves \<^verbatim>\<open>connectionLost\<close>, and the parent class is
  not called. In both cases the transcript was closed (\<^verbatim>\<open>ttylog_close\<close> was
  called) and its flag cleared before the upload.
\<close>

theorem upload_failure:
  assumes "ttylogEnabled s" and "ttylogOpen s" and "minioEnabled s"
    and "up (minioBucket s) (ttylogFile s) (ttylogFile s) = Some e"
  shows "fst (connectionLost sha up r ta tb s fs)
           = (if e = ResponseError then Returned else Raised e)
       \<and> (Super_connectionLost r \<in> set (snd (snd (snd (connectionLost sha up r ta tb s fs)))))
           = (e = ResponseError)
       \<and> \<not> ttylogOpen (fst (snd (connectionLost sha up r ta tb s fs)))
       \<and> Ttylog_close (ttylogFile s) tb
           \<in> set (snd (snd (snd (connectionLost sha up r ta tb s fs))))"
proof -
  obtain sa fsa esa where a: "finalize_stdin sha s fs = (sa, fsa, esa)"
    by (cases "finalize_stdin sha s fs")
  have sa: "sa = s\<lparr>stdinlogOpen := False\<rparr>"
    using finalize_stdin_session [of sha s fs] a by simp
  obtain fsb esb where b: "drain_redir sha (downloadPath s) (redirFiles s) fsa = (fsb, esb)"
    by (cases "drain_redir sha (downloadPath s) (redirFiles s) fsa")
  have nosuper_a: "Super_connectionLost r \<notin> set esa"
    using a by (auto simp add: finalize_stdin_def Let_def split: if_splits sum.splits)
  have "\<And>fs0 fs1 es. drain_redir sha dl rps fs0 = (fs1, es) \<Longrightarrow> Super_connectionLost r \<notin> set es"
    for dl rps
  proof (induction rps)
    case Nil
    then show ?case by simp
  next
    case (Cons rp rps)
    then show ?case
      by (cases rp)
         (auto simp add: finalize_redir_def Let_def split: prod.splits if_splits sum.splits)
  qed
  then have nosuper_b: "Super_connectionLost r \<notin> set esb" using b by blast
  show ?thesis
    using assms nosuper_a nosuper_b
    by (cases "redirFiles s = []")
       (auto simp add: connectionLost_def a b sa close_ttylog_def Let_def)
qed

theorem upload_failure_witness:
  "ttylogEnabled archive_session \<and> ttylogOpen archive_session \<and> minioEnabled archive_session
   \<and> upload_response_error (minioBucket archive_session) (ttylogFile archive_session)
        (ttylogFile archive_session) = Some ResponseError
   \<and> fst (connectionLost example_digest upload_response_error ''closed'' 9 9 archive_session empty_fs)
       = Returned
   \<and> Super_connectionLost ''closed''
       \<in> set (snd (snd (snd (connectionLost example_digest upload_response_error ''closed'' 9 9
                  archive_session empty_fs))))"
proof -
  have a: "ttylogEnabled archive_session" "ttylogOpen archive_session" "minioEnabled archive_session"
    by (simp_all add: archive_session_def)
  have b: "upload_response_error (minioBucket archive_session) (ttylogFile archive_session)
        (ttylogFile archive_session) = Some ResponseError"
    by (simp add: upload_response_error_def)
  from upload_failure [where up = upload_response_error and s = archive_session
      and sha = example_digest and r = "''closed''" and ta = 9 and tb = 9 and fs = empty_fs, OF a b] a b
  show ?thesis by simp
qed

text \<open>
  The claim as it is written fails: an upload that cannot reach the server raises an
  exception that is no \<^verbatim>\<open>ResponseError\<close>, and \<^verbatim>\<open>connectionLost\<close> raises it.
\<close>

text \<open>
  The claim as it is written fails: an upload that cannot reach the server raises an
  exception that is no \<^verbatim>\<open>ResponseError\<close>, and \<^verbatim>\<open>connectionLost\<close> raises it.
\<close>

theorem upload_failure_propagates_counterexample:
  "ttylogEnabled archive_session \<and> ttylogOpen archive_session \<and> minioEnabled archive_session
   \<and> connectionLost example_digest upload_unreachable ''closed'' 9 9 archive_session empty_fs
       = (Raised (OtherError ''MaxRetryError''), archive_session\<lparr>ttylogOpen := False\<rparr>, empty_fs,
          [Log_msg (Log_closed ''/log/tty/d-t-0i.log'' 0 9), Ttylog_close ''/log/tty/d-t-0i.log'' 9,
           Fput_object ''ttylogs'' ''/log/tty/d-t-0i.log'' ''/log/tty/d-t-0i.log''])"
  by (simp add: connectionLost_def finalize_stdin_def close_ttylog_def archive_session_def
      upload_unreachable_def)

subsection \<open>The constructor\<close>

lemma getboolean_raises:
  "isl (getboolean cfg section option)
     = (case cfg (section, option) of
          None \<Rightarrow> True
        | Some v \<Rightarrow>
            lower v \<notin> {''1'', ''yes'', ''true'', ''on'', ''0'', ''no'', ''false'', ''off''})"
  by (auto simp add: getboolean_def cfg_get_def boolean_states_def
      split: option.splits if_splits)

lemma init_returns:
  assumes "cfg (''honeypot'', ''log_path'') = Some lp"
    and "cfg (''honeypot'', ''download_path'') = Some dp"
  shows "init Minio cfg p
           = Inr (init_type (init_limit cfg
                    ((init_minio Minio cfg
                        (init_ttylog cfg
                           ((new_session p)\<lparr>bytesReceived := 0, ttylogPath := lp,
                                              downloadPath := dp\<rparr>)))
                     \<lparr>redirFiles := []\<rparr>)))"
  using assms by (simp add: init_def cfg_get_def)

lemma init_type_fields:
  "ttylogEnabled (init_type s) = ttylogEnabled s" "minioEnabled (init_type s) = minioEnabled s"
  by (simp_all add: init_type_def)

lemma init_limit_fields:
  "ttylogEnabled (init_limit cfg s) = ttylogEnabled s"
  "minioEnabled (init_limit cfg s) = minioEnabled s"
  by (simp_all add: init_limit_def split: sum.splits)

lemma init_minio_ttylogEnabled:
  "ttylogEnabled (init_minio Minio cfg s) = ttylogEnabled s"
  by (simp add: init_minio_def Let_def split: sum.splits option.splits)

lemma init_ttylog_default:
  "ttylog_absent_or_unparsable cfg \<Longrightarrow> ttylogEnabled (init_ttylog cfg s)"
  using getboolean_raises [of cfg "''honeypot''" "''ttylog''"]
  by (auto simp add: init_ttylog_def ttylog_absent_or_unparsable_def split: sum.splits)

lemma connectionMade_opens:
  assumes "ttylogEnabled s"
  shows "ttylogOpen (fst (connectionMade tid cid now st1 st2 s))
       \<and> Ttylog_open (ttylogFile (fst (connectionMade tid cid now st1 st2 s))) now
           \<in> set (snd (connectionMade tid cid now st1 st2 s))"
  using assms by (simp add: connectionMade_def Let_def)

text \<open>
  Claim C9. When the \<^verbatim>\<open>ttylog\<close> option is absent or is no boolean, and the two
  paths that the constructor reads outside any handler are set, the constructor returns a
  session with \<open>ttylogEnabled\<close> true, and \<^verbatim>\<open>connectionMade\<close> on it opens the
  transcript: it calls \<^verbatim>\<open>ttylog_open\<close> with the transcript file and the start time
  and sets \<open>ttylogOpen\<close>.
\<close>

theorem ttylog_defaults_to_enabled:
  assumes "ttylog_absent_or_unparsable cfg"
    and "cfg (''honeypot'', ''log_path'') = Some lp"
    and "cfg (''honeypot'', ''download_path'') = Some dp"
  shows "\<exists>s. init Minio cfg p = Inr s \<and> ttylogEnabled s
            \<and> ttylogOpen (fst (connectionMade tid cid now st1 st2 s))
            \<and> Ttylog_open (ttylogFile (fst (connectionMade tid cid now st1 st2 s))) now
                \<in> set (snd (connectionMade tid cid now st1 st2 s))"
proof -
  let ?s = "init_type (init_limit cfg
                    ((init_minio Minio cfg
                        (init_ttylog cfg
                           ((new_session p)\<lparr>bytesReceived := 0, ttylogPath := lp,
                                              downloadPath := dp\<rparr>)))
                     \<lparr>redirFiles := []\<rparr>))"
  have r: "init Minio cfg p = Inr ?s"
    using assms(2,3) by (rule init_returns)
  have en: "ttylogEnabled ?s"
    using init_ttylog_default [OF assms(1)]
    by (simp add: init_type_fields init_limit_fields init_minio_ttylogEnabled)
  show ?thesis
    using r en connectionMade_opens [OF en] by blast
qed

theorem ttylog_defaults_to_enabled_witness:
  "ttylog_absent_or_unparsable unparsable_cfg
   \<and> unparsable_cfg (''honeypot'', ''ttylog'') = Some ''maybe''
   \<and> (case init no_minio unparsable_cfg (Some HoneyPotInteractiveProtocol) of
         Inl e \<Rightarrow> False
       | Inr s \<Rightarrow>
           ttylogEnabled s
           \<and> snd (connectionMade ''t'' ''0'' 0 ''d'' ''d'' s)
               = [Ttylog_open ''/log/tty/d-t-0i.log'' 0,
                  Log_msg (Log_open ''/log/tty/d-t-0i.log''), Super_connectionMade])"
proof -
  have a: "ttylog_absent_or_unparsable unparsable_cfg"
    by (simp add: ttylog_absent_or_unparsable_def unparsable_cfg_def lower_def lower_char_def)
  have b: "unparsable_cfg (''honeypot'', ''log_path'') = Some ''/log''"
    "unparsable_cfg (''honeypot'', ''download_path'') = Some ''/dl''"
    by (simp_all add: unparsable_cfg_def)
  from ttylog_defaults_to_enabled [OF a b, of no_minio "Some HoneyPotInteractiveProtocol"
      "''t''" "''0''" 0 "''d''" "''d''"]
  obtain s where s: "init no_minio unparsable_cfg (Some HoneyPotInteractiveProtocol) = Inr s"
    and en: "ttylogEnabled s" by blast
  have s_def: "s = init_type (init_limit unparsable_cfg
                    ((init_minio no_minio unparsable_cfg
                        (init_ttylog unparsable_cfg
                           ((new_session (Some HoneyPotInteractiveProtocol))
                              \<lparr>bytesReceived := 0, ttylogPath := ''/log'',
                               downloadPath := ''/dl''\<rparr>)))
                     \<lparr>redirFiles := []\<rparr>))"
    using s init_returns [OF b, of no_minio "Some HoneyPotInteractiveProtocol"] by simp
  have paths: "ttylogPath s = ''/log''" "stype s = CHR ''i''"
    by (simp_all add: s_def init_type_def init_limit_def init_minio_def cfg_get_def
        getboolean_def unparsable_cfg_def init_ttylog_def new_session_def split: sum.splits)
  have "snd (connectionMade ''t'' ''0'' 0 ''d'' ''d'' s)
               = [Ttylog_open ''/log/tty/d-t-0i.log'' 0,
                  Log_msg (Log_open ''/log/tty/d-t-0i.log''), Super_connectionMade]"
    using en paths by (simp add: connectionMade_def Let_def)
  then show ?thesis
    using a s en by (simp add: unparsable_cfg_def)
qed

lemma init_minio_disabled:
  assumes "minio_setup_raises Minio cfg"
  shows "\<not> minioEnabled (init_minio Minio cfg s)"
  using assms
  by (auto simp add: init_minio_def minio_setup_raises_def Let_def split: sum.splits option.splits)

lemma connectionMade_minioEnabled:
  "minioEnabled (fst (connectionMade tid cid now st1 st2 s)) = minioEnabled s"
  by (simp add: connectionMade_def Let_def)

lemma write_prot_minioEnabled:
  "minioEnabled (fst (write_prot now d s)) = minioEnabled s"
  by (simp add: write_prot_def)

lemma dataReceived_minioEnabled:
  "minioEnabled (fst (snd (dataReceived now d s fs))) = minioEnabled s"
  using dataReceived_step [of now d s fs]
  by (cases "dataReceived now d s fs") simp

lemma connectionLost_minioEnabled:
  "minioEnabled (fst (snd (connectionLost sha up r ta tb s fs))) = minioEnabled s"
proof -
  obtain sa fsa esa where a: "finalize_stdin sha s fs = (sa, fsa, esa)"
    by (cases "finalize_stdin sha s fs")
  have sa: "sa = s\<lparr>stdinlogOpen := False\<rparr>"
    using finalize_stdin_session [of sha s fs] a by simp
  obtain fsb esb where b: "drain_redir sha (downloadPath s) (redirFiles s) fsa = (fsb, esb)"
    by (cases "drain_redir sha (downloadPath s) (redirFiles s) fsa")
  have c: "minioEnabled (fst (snd (close_ttylog up ta tb s'))) = minioEnabled s'" for s'
    by (simp add: close_ttylog_session)
  show ?thesis
    using c [of "s\<lparr>stdinlogOpen := False\<rparr>"] c [of "s\<lparr>stdinlogOpen := False, redirFiles := []\<rparr>"]
    by (cases "redirFiles s = []")
       (auto simp add: connectionLost_def a b sa split: prod.splits outcome.splits)
qed

lemma evolves_minioEnabled:
  "evolves s0 s \<Longrightarrow> minioEnabled s = minioEnabled s0"
  by (induction rule: evolves.induct)
     (simp_all add: connectionMade_minioEnabled write_prot_minioEnabled
        dataReceived_minioEnabled connectionLost_minioEnabled)

lemma finalize_stdin_logs: "list_all is_log_msg (snd (snd (finalize_stdin sha s fs)))"
  by (auto simp add: finalize_stdin_def Let_def split: sum.splits)

lemma finalize_redir_logs: "list_all is_log_msg (snd (finalize_redir sha dl rp fs))"
  by (auto simp add: finalize_redir_def Let_def split: sum.splits)

lemma drain_redir_logs: "list_all is_log_msg (snd (drain_redir sha dl rps fs))"
proof (induction rps arbitrary: fs)
  case Nil
  then show ?case by simp
next
  case (Cons rp rps)
  obtain fs1 es where a: "finalize_redir sha dl rp fs = (fs1, es)"
    by (cases "finalize_redir sha dl rp fs")
  obtain fs2 es' where b: "drain_redir sha dl rps fs1 = (fs2, es')"
    by (cases "drain_redir sha dl rps fs1")
  have "list_all is_log_msg es"
    using finalize_redir_logs [of sha dl rp fs] a by simp
  moreover have "list_all is_log_msg es'"
    using Cons.IH [of fs1] b by simp
  ultimately show ?case
    by (simp add: a b)
qed

lemma no_upload_in_logs:
  "list_all is_log_msg es \<Longrightarrow> Fput_object b f g \<notin> set es"
  by (induction es) auto

lemma connectionLost_skips_upload:
  assumes "\<not> minioEnabled s"
  shows "Fput_object b f g \<notin> set (snd (snd (snd (connectionLost sha up r ta tb s fs))))"
proof -
  obtain sa fsa esa where a: "finalize_stdin sha s fs = (sa, fsa, esa)"
    by (cases "finalize_stdin sha s fs")
  have sa: "sa = s\<lparr>stdinlogOpen := False\<rparr>"
    using finalize_stdin_session [of sha s fs] a by simp
  obtain fsb esb where d: "drain_redir sha (downloadPath s) (redirFiles s) fsa = (fsb, esb)"
    by (cases "drain_redir sha (downloadPath s) (redirFiles s) fsa")
  have na: "Fput_object b f g \<notin> set esa"
    using finalize_stdin_logs [of sha s fs] a by (simp add: no_upload_in_logs)
  have nb: "Fput_object b f g \<notin> set esb"
    using drain_redir_logs [of sha "downloadPath s" "redirFiles s" fsa] d
    by (simp add: no_upload_in_logs)
  show ?thesis
    using assms na nb
    by (cases "redirFiles s = []")
       (auto simp add: connectionLost_def a d sa close_ttylog_def Let_def)
qed

text \<open>
  Claim C10. When a read of an object-storage option or the constructor of the client
  raises, and the two paths that the constructor reads outside any handler are set, the
  constructor returns (the error does not surface) a session with \<open>minioEnabled\<close>
  false; and in every later state of that session, \<^verbatim>\<open>connectionLost\<close> makes no
  upload call, with whatever arguments and files it runs.
\<close>

theorem minio_failure_disables_upload:
  assumes "minio_setup_raises Minio cfg"
    and "cfg (''honeypot'', ''log_path'') = Some lp"
    and "cfg (''honeypot'', ''download_path'') = Some dp"
  shows "\<exists>s0. init Minio cfg p = Inr s0 \<and> \<not> minioEnabled s0
            \<and> (\<forall>s. evolves s0 s \<longrightarrow>
                   (\<forall>sha up r ta tb fs b f g.
                      Fput_object b f g
                        \<notin> set (snd (snd (snd (connectionLost sha up r ta tb s fs))))))"
proof -
  let ?s0 = "init_type (init_limit cfg
                    ((init_minio Minio cfg
                        (init_ttylog cfg
                           ((new_session p)\<lparr>bytesReceived := 0, ttylogPath := lp,
                                              downloadPath := dp\<rparr>)))
                     \<lparr>redirFiles := []\<rparr>))"
  have r: "init Minio cfg p = Inr ?s0"
    using assms(2,3) by (rule init_returns)
  have off: "\<not> minioEnabled ?s0"
    using init_minio_disabled [OF assms(1)]
    by (simp add: init_type_fields init_limit_fields)
  have "\<not> minioEnabled s" if "evolves ?s0 s" for s
    using evolves_minioEnabled [OF that] off by simp
  then show ?thesis
    using r off connectionLost_skips_upload by blast
qed

theorem minio_failure_disables_upload_witness:
  "minio_setup_raises no_minio archive_cfg
   \<and> getboolean archive_cfg ''honeypot'' ''minio'' = Inr True
   \<and> (case init no_minio archive_cfg (Some HoneyPotInteractiveProtocol) of
         Inl e \<Rightarrow> False
       | Inr s0 \<Rightarrow>
           \<not> minioEnabled s0
           \<and> Fput_object ''ttylogs'' ''/log/tty/d-t-0i.log'' ''/log/tty/d-t-0i.log''
               \<notin> set (snd (snd (snd (connectionLost example_digest upload_ok ''closed'' 9 9
                         (fst (connectionMade ''t'' ''0'' 0 ''d'' ''d'' s0)) empty_fs)))))"
proof -
  have gb: "getboolean archive_cfg ''honeypot'' ''minio'' = Inr True"
    by (simp add: getboolean_def cfg_get_def archive_cfg_def boolean_states_def lower_def
        lower_char_def)
  have a: "minio_setup_raises no_minio archive_cfg"
    by (simp add: minio_setup_raises_def no_minio_def)
  have b: "archive_cfg (''honeypot'', ''log_path'') = Some ''/log''"
    "archive_cfg (''honeypot'', ''download_path'') = Some ''/dl''"
    by (simp_all add: archive_cfg_def)
  from minio_failure_disables_upload [OF a b, of "Some HoneyPotInteractiveProtocol"]
  obtain s0 where h: "init no_minio archive_cfg (Some HoneyPotInteractiveProtocol) = Inr s0
            \<and> \<not> minioEnabled s0
            \<and> (\<forall>s. evolves s0 s \<longrightarrow>
                   (\<forall>sha up r ta tb fs b f g.
                      Fput_object b f g
                        \<notin> set (snd (snd (snd (connectionLost sha up r ta tb s fs))))))" ..
  have ev: "evolves s0 (fst (connectionMade ''t'' ''0'' 0 ''d'' ''d'' s0))"
    by (rule evolves.made) (rule evolves.start)
  from h have s0: "init no_minio archive_cfg (Some HoneyPotInteractiveProtocol) = Inr s0"
    and off: "\<not> minioEnabled s0" by simp_all
  have "Fput_object ''ttylogs'' ''/log/tty/d-t-0i.log'' ''/log/tty/d-t-0i.log''
               \<notin> set (snd (snd (snd (connectionLost example_digest upload_ok ''closed'' 9 9
                         (fst (connectionMade ''t'' ''0'' 0 ''d'' ''d'' s0)) empty_fs))))"
    by (rule h [THEN conjunct2, THEN conjunct2, rule_format, OF ev])
  then show ?thesis
    using a gb s0 off by simp
qed

end
